theory Spec2Isabelle
  imports Main "HOL-Library.Sublist"
begin

section \<open>Values of the program\<close>

text \<open>
  The program is an Express application: \<^verbatim>\<open>src/unnamed/part_000\<close> builds the middleware
  pipeline and \<^verbatim>\<open>src/routes/api/v1/profile.js\<close> holds the four profile routes.
  A JavaScript \<^verbatim>\<open>Error\<close> is a value with a message and a stack.
\<close>

record js_error =
  message :: string
  stack :: string

text \<open>
  The fields of the Sequelize user instance \<^verbatim>\<open>req.user\<close> that the routes read or write.
  A nullable column is an option.
\<close>

record user =
  user_id :: nat
  email :: string
  firstName :: "string option"
  lastName :: "string option"
  picture :: "string option"
  stripe_customer_id :: "string option"
  stripe_card_id :: "string option"

text \<open>
  The object passed to \<^verbatim>\<open>user.update\<close>: a key is either absent (\<open>None\<close>) or carries
  the new value.
\<close>

record update_data =
  upd_firstName :: "string option"
  upd_lastName :: "string option"
  upd_picture :: "string option"
  upd_stripe_customer_id :: "string option"
  upd_stripe_card_id :: "string option"

datatype body =
    ErrorBody string
  | UserBody user
  | PictureBody "string option"
  | AllowBody string
  | PipedBody string
  | NotFoundBody
  | OtherBody string

record response =
  status :: nat
  body :: body

record log_entry =
  level :: string
  log_message :: string
  metadata :: string
  label :: string

datatype info_message =
    UserUpdated nat
  | UserDeleted nat
  | PictureUpdated nat

text \<open>
  Every call of a collaborator that lives outside the two source files (a database, the
  blob store, the payment provider, a library middleware) is an event. The trace of a run
  is the list of the calls it started, in order.
\<close>

datatype event =
    ParseUrlencoded
  | ParseJson
  | LoadSession
  | PassportInitialize
  | PassportSession
  | Upload
  | FetchFrontend
  | FindAll nat
  | Destroy nat
  | DeleteFile string
  | DeleteMany nat
  | Logout
  | Update nat update_data
  | CreateCustomer string
  | CreateCard string string

datatype http_method = GET | HEAD | OPTIONS | POST | PUT | DELETE | PATCH

text \<open>
  The request path after Express has resolved the mount points: the three paths of the
  profile router, any other path under \<^verbatim>\<open>/api/v1/\<close>, and any path outside it.
\<close>

datatype target = Profile | ProfilePicture | ProfileCard | OtherApi | NonApi

record request =
  req_method :: http_method
  target :: target
  suppliedToken :: "string option"
  req_user :: "user option"
  body_token :: string
  body_firstName :: "string option"
  body_lastName :: "string option"
  file_url :: "string option"

section \<open>State\<close>

text \<open>
  The stores the routes act on, the session, the response object \<^verbatim>\<open>res\<close> and the two
  loggers, threaded through every step.
\<close>

record state =
  users :: "nat \<rightharpoonup> user"
  articles :: "(nat \<times> string option) list"
  blobs :: "string set"
  views :: "(nat \<times> nat) list"
  sessionAlive :: bool
  forceClosed :: "nat list"
  csrfSecret :: "string option"
  statusCode :: nat
  sent :: "response list"
  cookies :: "(string \<times> string) list"
  infoLog :: "info_message list"
  errorLog :: "log_entry list"
  trace :: "event list"

type_synonym 'a action = "state \<Rightarrow> (js_error + 'a) \<times> state"

text \<open>
  What a middleware does with the request: it calls \<^verbatim>\<open>next()\<close> (\<open>Next\<close>), it ends
  without calling it (\<open>Done\<close>), or it calls \<^verbatim>\<open>next(err)\<close> or throws (the \<open>Inl\<close> of
  an action).
\<close>

datatype flow = Next | Done

text \<open>
  The collaborators that are not under \<^verbatim>\<open>src/\<close> are parameters: \<open>fails\<close> says which
  calls reject and with what error, \<open>settles\<close> at what time a call settles; the others
  are the values the libraries hand back and the middleware of the repository that is
  not under \<^verbatim>\<open>src/\<close>.
\<close>

record env =
  fails :: "event \<Rightarrow> js_error option"
  settles :: "event \<Rightarrow> nat"
  verify :: "string \<Rightarrow> string \<Rightarrow> bool"
  newSecret :: string
  newSalt :: string
  createToken :: "string \<Rightarrow> string \<Rightarrow> string"
  customerIdOf :: "string \<Rightarrow> string"
  cardIdOf :: "string \<Rightarrow> string \<Rightarrow> string"
  frontendPage :: string
  isLoggedIn :: "request \<Rightarrow> flow action"
  editProfileValidation :: "request \<Rightarrow> flow action"
  otherApiRoutes :: "request \<Rightarrow> flow action"
  logoutResponse :: "request \<Rightarrow> unit action"

section \<open>Promises\<close>

definition resolve :: "'a \<Rightarrow> 'a action" where
  "resolve x s = (Inr x, s)"

definition reject :: "js_error \<Rightarrow> 'a action" where
  "reject e s = (Inl e, s)"

text \<open>\<^verbatim>\<open>const x = await m; f(x)\<close>: a rejection of \<open>m\<close> is thrown and skips \<open>f\<close>.\<close>

definition await :: "'a action \<Rightarrow> ('a \<Rightarrow> 'b action) \<Rightarrow> 'b action" where
  "await m f s = (case m s of (Inl e, s') \<Rightarrow> (Inl e, s') | (Inr x, s') \<Rightarrow> f x s')"

text \<open>
  A collaborator call: it is recorded, then either rejects or has its effect.
\<close>

definition call :: "env \<Rightarrow> event \<Rightarrow> (state \<Rightarrow> state) \<Rightarrow> unit action" where
  "call en e eff s =
     (let s' = s\<lparr>trace := trace s @ [e]\<rparr>
      in case fails en e of Some err \<Rightarrow> (Inl err, s') | None \<Rightarrow> (Inr (), eff s'))"

text \<open>
  \<^verbatim>\<open>Promise.all(xs.map(f))\<close>: \<open>map\<close> starts every call, in list order, before anything
  is awaited, and each promise comes with the time at which it settles. The calls that
  were started all run to their end. \<open>settle_all\<close> runs them and keeps the rejection
  that settles first in time (of two at the same time, the one listed first);
  the combined promise rejects with that one, and resolves when none rejects.
\<close>

fun settle_all :: "(nat \<times> unit action) list \<Rightarrow> state \<Rightarrow> (nat \<times> js_error) option \<times> state" where
  "settle_all [] s = (None, s)"
| "settle_all (p # ps) s =
     (case snd p s of (r, s') \<Rightarrow>
        (case settle_all ps s' of (later, s'') \<Rightarrow>
           (case r of
              Inr _ \<Rightarrow> (later, s'')
            | Inl e \<Rightarrow>
                (case later of
                   None \<Rightarrow> (Some (fst p, e), s'')
                 | Some l \<Rightarrow> if fst p \<le> fst l then (Some (fst p, e), s'') else (Some l, s'')))))"

definition promise_all :: "(nat \<times> unit action) list \<Rightarrow> unit action" where
  "promise_all ps s =
     (case settle_all ps s of
        (None, s') \<Rightarrow> (Inr (), s')
      | (Some l, s') \<Rightarrow> (Inl (snd l), s'))"

text \<open>JavaScript truthiness of a nullable string: \<^verbatim>\<open>null\<close> and \<^verbatim>\<open>''\<close> are falsy.\<close>

definition truthy :: "string option \<Rightarrow> bool" where
  "truthy v = (case v of None \<Rightarrow> False | Some x \<Rightarrow> x \<noteq> [])"

definition type_error :: js_error where
  "type_error = \<lparr>message = ''Cannot read property of undefined'', stack = ''TypeError''\<rparr>"

definition headers_sent :: js_error where
  "headers_sent =
     \<lparr>message = ''Cannot set headers after they are sent to the client'',
      stack = ''ERR_HTTP_HEADERS_SENT''\<rparr>"

section \<open>The response object\<close>

text \<open>
  \<^verbatim>\<open>res.send\<close> and \<^verbatim>\<open>res.json\<close> write the response with the current status code; a second
  write throws.
\<close>

definition send :: "body \<Rightarrow> unit action" where
  "send b s =
     (if sent s \<noteq> [] then (Inl headers_sent, s)
      else (Inr (), s\<lparr>sent := [\<lparr>status = statusCode s, body = b\<rparr>]\<rparr>))"

section \<open>Collaborators of the profile routes\<close>

text \<open>
  \<^verbatim>\<open>Article.findAll({where: {authorId: id, picture: {[Op.not]: null}}, raw: true,
  attributes: ['picture']})\<close> followed by \<^verbatim>\<open>.map((i) => i.picture)\<close>.
\<close>

definition article_pictures :: "state \<Rightarrow> nat \<Rightarrow> string list" where
  "article_pictures s i =
     concat (map (\<lambda>(a, p). case p of None \<Rightarrow> [] | Some x \<Rightarrow> if a = i then [x] else [])
               (articles s))"

definition findAll :: "env \<Rightarrow> nat \<Rightarrow> string list action" where
  "findAll en i s =
     (let s' = s\<lparr>trace := trace s @ [FindAll i]\<rparr>
      in case fails en (FindAll i) of
           Some err \<Rightarrow> (Inl err, s')
         | None \<Rightarrow> (Inr (article_pictures s i), s'))"

text \<open>
  \<^verbatim>\<open>req.user.destroy()\<close>: Sequelize issues the SQL delete of the row with the user's id.
  The statement reports how many rows it removed: none when the row is not there, which
  is a result of the statement and no error.
\<close>

definition destroy :: "env \<Rightarrow> nat \<Rightarrow> nat action" where
  "destroy en i s =
     (let s' = s\<lparr>trace := trace s @ [Destroy i]\<rparr>
      in case fails en (Destroy i) of
           Some err \<Rightarrow> (Inl err, s')
         | None \<Rightarrow> (Inr (if users s i = None then 0 else 1),
                     s'\<lparr>users := (users s)(i := None)\<rparr>))"

definition deleteFile :: "env \<Rightarrow> string \<Rightarrow> unit action" where
  "deleteFile en url = call en (DeleteFile url) (\<lambda>s. s\<lparr>blobs := blobs s - {url}\<rparr>)"

definition deleteMany :: "env \<Rightarrow> nat \<Rightarrow> unit action" where
  "deleteMany en i = call en (DeleteMany i) (\<lambda>s. s\<lparr>views := filter (\<lambda>(a, d). a \<noteq> i) (views s)\<rparr>)"

definition infoLogger_log :: "info_message \<Rightarrow> unit action" where
  "infoLogger_log m s = (Inr (), s\<lparr>infoLog := infoLog s @ [m]\<rparr>)"

text \<open>
  Modelled from the spec: \<^verbatim>\<open>authService.logout\<close> (services/auth-service) is not under
  \<^verbatim>\<open>src/\<close>. Step 5 of the deletion sequence: destroy the session record and publish a
  force-close event for the identity; a failure of this step is logged and does not
  fail the operation. What \<^verbatim>\<open>logout\<close> then writes to the response object it is handed, and
  whether it rejects, is not said by the spec: it is the parameter \<open>logoutResponse\<close>, of
  which only the status code, the response and the cookies are taken.
\<close>

definition logout :: "env \<Rightarrow> request \<Rightarrow> unit action" where
  "logout en req s =
     (let s1 = s\<lparr>trace := trace s @ [Logout]\<rparr>;
          s2 = (case fails en Logout of
                  Some err \<Rightarrow>
                    s1\<lparr>errorLog := errorLog s1 @
                       [\<lparr>level = ''error'', log_message = message err, metadata = stack err,
                         label = ''logout''\<rparr>]\<rparr>
                | None \<Rightarrow>
                    s1\<lparr>sessionAlive := False, csrfSecret := None,
                       forceClosed := forceClosed s1 @
                         (case req_user req of None \<Rightarrow> [] | Some u \<Rightarrow> [user_id u])\<rparr>)
      in case logoutResponse en req s2 of
           (r, s3) \<Rightarrow>
             (r, s2\<lparr>statusCode := statusCode s3, sent := sent s3, cookies := cookies s3\<rparr>))"

section \<open>DELETE api/v1/profile\<close>

definition delete_profile :: "env \<Rightarrow> request \<Rightarrow> unit action" where
  "delete_profile en req =
     (case req_user req of
        None \<Rightarrow> reject type_error
      | Some u \<Rightarrow>
          (let i = user_id u;
               oldProfilePicture = picture u
           in await (findAll en i) (\<lambda>articlesPictures.
              await (destroy en i) (\<lambda>destroyed.
              await (case oldProfilePicture of
                       None \<Rightarrow> resolve ()
                     | Some p \<Rightarrow> if p \<noteq> [] then deleteFile en p else resolve ()) (\<lambda>_.
              await (if articlesPictures \<noteq> []
                     then promise_all
                            (map (\<lambda>url. (settles en (DeleteFile url), deleteFile en url))
                               articlesPictures)
                     else resolve ()) (\<lambda>_.
              await (deleteMany en i) (\<lambda>_.
              await (infoLogger_log (UserDeleted i)) (\<lambda>_.
              logout en req))))))))"

section \<open>Error handling of the application\<close>

text \<open>
  The error-handling middleware, the last \<^verbatim>\<open>app.use\<close> of the application: it answers
  with status 500 and the message of the error when the status code is still 200, then
  writes the message and the stack to the error log. It does not call \<^verbatim>\<open>next\<close>.
\<close>

definition error_middleware :: "js_error \<Rightarrow> unit action" where
  "error_middleware err s =
     (case (if statusCode s = 200
            then send (ErrorBody (message err)) (s\<lparr>statusCode := 500\<rparr>)
            else (Inr (), s)) of
        (Inl e, s') \<Rightarrow> (Inl e, s')
      | (Inr _, s') \<Rightarrow>
          (Inr (), s'\<lparr>errorLog := errorLog s' @
             [\<lparr>level = ''error'', log_message = message err, metadata = stack err,
               label = ''express''\<rparr>]\<rparr>))"

text \<open>
  A route handler wrapped in \<^verbatim>\<open>asyncHandler\<close> (express-async-handler), which passes a
  rejection of the handler to \<^verbatim>\<open>next\<close>, with the error middleware behind it. An error
  thrown by the error middleware itself goes to the default handler of Express, which
  writes nothing more once a response has been written.
\<close>

definition handled :: "unit action \<Rightarrow> state \<Rightarrow> state" where
  "handled h s =
     (case h s of
        (Inl err, s') \<Rightarrow> snd (error_middleware err s')
      | (Inr _, s') \<Rightarrow> s')"

section \<open>The other profile routes\<close>

text \<open>
  \<^verbatim>\<open>instance.update(values)\<close> of Sequelize: the keys that are present are set on the
  instance, and an SQL update sets them in the row with the id of the instance; the other
  columns of the row stay, and a row that is not there stays absent.
\<close>

definition apply_update :: "update_data \<Rightarrow> user \<Rightarrow> user" where
  "apply_update d u =
     u\<lparr>firstName := (case upd_firstName d of None \<Rightarrow> firstName u | Some v \<Rightarrow> Some v),
       lastName := (case upd_lastName d of None \<Rightarrow> lastName u | Some v \<Rightarrow> Some v),
       picture := (case upd_picture d of None \<Rightarrow> picture u | Some v \<Rightarrow> Some v),
       stripe_customer_id :=
         (case upd_stripe_customer_id d of None \<Rightarrow> stripe_customer_id u | Some v \<Rightarrow> Some v),
       stripe_card_id :=
         (case upd_stripe_card_id d of None \<Rightarrow> stripe_card_id u | Some v \<Rightarrow> Some v)\<rparr>"

definition update :: "env \<Rightarrow> user \<Rightarrow> update_data \<Rightarrow> user action" where
  "update en u d s =
     (let s' = s\<lparr>trace := trace s @ [Update (user_id u) d]\<rparr>
      in case fails en (Update (user_id u) d) of
           Some err \<Rightarrow> (Inl err, s')
         | None \<Rightarrow> (Inr (apply_update d u),
                     s'\<lparr>users :=
                          (case users s (user_id u) of
                             None \<Rightarrow> users s
                           | Some row \<Rightarrow> (users s)(user_id u \<mapsto> apply_update d row))\<rparr>))"

definition createCustomer :: "env \<Rightarrow> string \<Rightarrow> string action" where
  "createCustomer en mail =
     await (call en (CreateCustomer mail) (\<lambda>s. s)) (\<lambda>_. resolve (customerIdOf en mail))"

definition createCard :: "env \<Rightarrow> string \<Rightarrow> string \<Rightarrow> string action" where
  "createCard en token customerId =
     await (call en (CreateCard token customerId) (\<lambda>s. s))
       (\<lambda>_. resolve (cardIdOf en token customerId))"

definition no_update :: update_data where
  "no_update =
     \<lparr>upd_firstName = None, upd_lastName = None, upd_picture = None,
      upd_stripe_customer_id = None, upd_stripe_card_id = None\<rparr>"

text \<open>PUT api/v1/profile\<close>

definition put_profile :: "env \<Rightarrow> request \<Rightarrow> unit action" where
  "put_profile en req =
     (case req_user req of
        None \<Rightarrow> reject type_error
      | Some u \<Rightarrow>
          (let i = user_id u;
               userData = no_update\<lparr>upd_firstName := body_firstName req,
                                    upd_lastName := body_lastName req\<rparr>
           in await (update en u userData) (\<lambda>u'.
              await (infoLogger_log (UserUpdated i)) (\<lambda>_.
              send (UserBody u')))))"

text \<open>PUT api/v1/profile/picture\<close>

definition put_picture :: "env \<Rightarrow> request \<Rightarrow> unit action" where
  "put_picture en req =
     (case req_user req of
        None \<Rightarrow> reject type_error
      | Some u \<Rightarrow>
          (case file_url req of
             None \<Rightarrow> reject type_error
           | Some url \<Rightarrow>
               (let i = user_id u;
                    userData = no_update\<lparr>upd_picture := Some url\<rparr>;
                    oldPicture = picture u
                in await (update en u userData) (\<lambda>u'.
                   await (infoLogger_log (PictureUpdated i)) (\<lambda>_.
                   await (case oldPicture of
                            None \<Rightarrow> resolve ()
                          | Some p \<Rightarrow> if p \<noteq> [] then deleteFile en p else resolve ()) (\<lambda>_.
                   send (PictureBody (picture u'))))))))"

text \<open>PUT api/v1/profile/card\<close>

definition put_card :: "env \<Rightarrow> request \<Rightarrow> unit action" where
  "put_card en req =
     (case req_user req of
        None \<Rightarrow> reject type_error
      | Some u \<Rightarrow>
          (let token = body_token req;
               customerId = stripe_customer_id u;
               updateData = no_update
           in await (if \<not> truthy customerId
                     then await (createCustomer en (email u)) (\<lambda>c.
                          resolve (c, updateData\<lparr>upd_stripe_customer_id := Some c\<rparr>))
                     else resolve (case customerId of None \<Rightarrow> [] | Some c \<Rightarrow> c, updateData))
                (\<lambda>(customerId, updateData).
              await (createCard en token customerId) (\<lambda>cardId.
              await (update en u (updateData\<lparr>upd_stripe_card_id := Some cardId\<rparr>)) (\<lambda>u'.
              send (UserBody u'))))))"

section \<open>The middleware stack\<close>

text \<open>
  \<open>chain m k\<close>: the middleware \<open>m\<close> runs, and \<open>k\<close>, the rest of the stack, runs only if
  \<open>m\<close> calls \<^verbatim>\<open>next()\<close>.
\<close>

definition chain :: "flow action \<Rightarrow> flow action \<Rightarrow> flow action" where
  "chain m k = await m (\<lambda>fl. case fl of Next \<Rightarrow> k | Done \<Rightarrow> resolve Done)"

fun run_stack :: "flow action list \<Rightarrow> flow action" where
  "run_stack [] = resolve Next"
| "run_stack (m # ms) = chain m (run_stack ms)"

text \<open>A library middleware that does its work and calls \<^verbatim>\<open>next()\<close>, or fails.\<close>

definition library_stage :: "env \<Rightarrow> event \<Rightarrow> flow action" where
  "library_stage en e = await (call en e (\<lambda>s. s)) (\<lambda>_. resolve Next)"

definition asyncHandler :: "unit action \<Rightarrow> flow action" where
  "asyncHandler fn = await fn (\<lambda>_. resolve Done)"

definition invalid_csrf_token :: js_error where
  "invalid_csrf_token = \<lparr>message = ''invalid csrf token'', stack = ''ForbiddenError''\<rparr>"

text \<open>
  \<^verbatim>\<open>csrf()\<close> (csurf, with the secret kept in the session): the secret is created when the
  session has none; a request whose method is not GET, HEAD or OPTIONS must carry a token
  that verifies against the secret, else the middleware calls \<^verbatim>\<open>next\<close> with an error.
\<close>

definition ignoreMethod :: "http_method \<Rightarrow> bool" where
  "ignoreMethod m = (m = GET \<or> m = HEAD \<or> m = OPTIONS)"

definition token_verifies :: "env \<Rightarrow> string \<Rightarrow> string option \<Rightarrow> bool" where
  "token_verifies en secret t = (case t of None \<Rightarrow> False | Some x \<Rightarrow> verify en secret x)"

definition session_secret :: "env \<Rightarrow> state \<Rightarrow> string" where
  "session_secret en s =
     (case csrfSecret s of None \<Rightarrow> newSecret en | Some x \<Rightarrow> if x \<noteq> [] then x else newSecret en)"

definition csrf :: "env \<Rightarrow> request \<Rightarrow> flow action" where
  "csrf en req s =
     (let secret = session_secret en s;
          s' = s\<lparr>csrfSecret := Some secret\<rparr>
      in if \<not> ignoreMethod (req_method req) \<and> \<not> token_verifies en secret (suppliedToken req)
         then (Inl invalid_csrf_token, s')
         else (Inr Next, s'))"

text \<open>
  \<^verbatim>\<open>app.all('*', (req, res, next) => { res.cookie('XSRF-TOKEN', req.csrfToken()); next(); })\<close>
\<close>

definition xsrf_cookie :: "env \<Rightarrow> flow action" where
  "xsrf_cookie en s =
     (let secret = session_secret en s
      in (Inr Next, s\<lparr>csrfSecret := Some secret,
                      cookies := cookies s @ [(''XSRF-TOKEN'', createToken en secret (newSalt en))]\<rparr>))"

text \<open>\<^verbatim>\<open>upload.single('picture')\<close>: multer stores the file in the bucket and sets \<^verbatim>\<open>req.file\<close>.\<close>

definition upload :: "env \<Rightarrow> request \<Rightarrow> flow action" where
  "upload en req =
     await (call en Upload
              (\<lambda>s. case file_url req of None \<Rightarrow> s | Some url \<Rightarrow> s\<lparr>blobs := insert url (blobs s)\<rparr>))
       (\<lambda>_. resolve Next)"

text \<open>
  The router of \<^verbatim>\<open>profile.js\<close>: the first route whose method and path match. An OPTIONS
  request for a path that has routes is answered by the router of Express itself, with
  the methods of these routes.
\<close>

definition allowed_methods :: "target \<Rightarrow> string" where
  "allowed_methods t =
     (case t of
        Profile \<Rightarrow> ''PUT,DELETE''
      | ProfilePicture \<Rightarrow> ''PUT''
      | ProfileCard \<Rightarrow> ''PUT''
      | _ \<Rightarrow> [])"

definition profile_router :: "env \<Rightarrow> request \<Rightarrow> flow action" where
  "profile_router en req =
     (if req_method req = PUT \<and> target req = Profile
      then run_stack [editProfileValidation en req, isLoggedIn en req,
                      asyncHandler (put_profile en req)]
      else if req_method req = DELETE \<and> target req = Profile
      then run_stack [isLoggedIn en req, asyncHandler (delete_profile en req)]
      else if req_method req = PUT \<and> target req = ProfilePicture
      then run_stack [isLoggedIn en req, upload en req, asyncHandler (put_picture en req)]
      else if req_method req = PUT \<and> target req = ProfileCard
      then run_stack [isLoggedIn en req, asyncHandler (put_card en req)]
      else if req_method req = OPTIONS \<and> allowed_methods (target req) \<noteq> []
      then await (send (AllowBody (allowed_methods (target req)))) (\<lambda>_. resolve Done)
      else resolve Next)"

text \<open>
  \<^verbatim>\<open>app.use('/api/v1/', apiRoutes)\<close>. The index of \<^verbatim>\<open>routes/api/v1\<close> is not under \<^verbatim>\<open>src/\<close>:
  the profile router serves the profile paths, the other routers are a parameter.
\<close>

definition apiRoutes :: "env \<Rightarrow> request \<Rightarrow> flow action" where
  "apiRoutes en req =
     (case target req of
        NonApi \<Rightarrow> resolve Next
      | OtherApi \<Rightarrow> otherApiRoutes en req
      | _ \<Rightarrow> profile_router en req)"

text \<open>
  \<^verbatim>\<open>app.get('*', (req, res) => { https.get(process.env.FRONTEND_URL, (response) =>
  response.pipe(res)); })\<close>: the callback runs only when the frontend answers; there is
  no handler for a failed fetch.
\<close>

definition frontend_proxy :: "env \<Rightarrow> request \<Rightarrow> flow action" where
  "frontend_proxy en req s =
     (if req_method req = GET \<or> req_method req = HEAD
      then (let s' = s\<lparr>trace := trace s @ [FetchFrontend]\<rparr>
            in case fails en FetchFrontend of
                 Some err \<Rightarrow> (Inr Done, s')
               | None \<Rightarrow> await (send (PipedBody (frontendPage en))) (\<lambda>_. resolve Done) s')
      else (Inr Next, s))"

text \<open>The \<^verbatim>\<open>app.use\<close> calls that come before the routers, in the order of the source.\<close>

definition security_stack :: "env \<Rightarrow> request \<Rightarrow> flow action list" where
  "security_stack en req =
     [library_stage en ParseUrlencoded,
      library_stage en ParseJson,
      library_stage en LoadSession,
      csrf en req,
      xsrf_cookie en]"

definition app_stack :: "env \<Rightarrow> request \<Rightarrow> flow action list" where
  "app_stack en req =
     security_stack en req @
     [library_stage en PassportInitialize,
      library_stage en PassportSession,
      apiRoutes en req,
      frontend_proxy en req]"

text \<open>
  One request: the stack runs; an error goes to the error middleware, a request that no
  middleware answered gets the 404 of Express. An error thrown inside the error
  middleware reaches the default handler, which writes nothing when a response has been
  written already, and the error middleware throws in no other case.
\<close>

definition run_request :: "env \<Rightarrow> request \<Rightarrow> state \<Rightarrow> state" where
  "run_request en req s =
     (case run_stack (app_stack en req) s of
        (Inl err, s') \<Rightarrow> snd (error_middleware err s')
      | (Inr Next, s') \<Rightarrow> snd (send NotFoundBody (s'\<lparr>statusCode := 404\<rparr>))
      | (Inr Done, s') \<Rightarrow> s')"

section \<open>Session lifetime\<close>

text \<open>\<^verbatim>\<open>sessionConfig.cookie.maxAge\<close>, in milliseconds.\<close>

definition maxAge :: nat where
  "maxAge = 48 * 3600 * 1000"

record session_record =
  sessionId :: string
  identityId :: nat
  createdAt :: nat
  expiresAt :: nat

datatype auth_error = Unauthenticated

text \<open>
  Modelled from the spec: the session store (connect-redis behind express-session) and
  the Auth Gate (\<^verbatim>\<open>isLoggedIn\<close> of the passport module) are not under \<^verbatim>\<open>src/\<close>. Section
  4.1: a session is created with an absolute lifetime, the store enforces it, and the
  Auth Gate checks it again when it loads a session.
\<close>

definition createSession :: "string \<Rightarrow> nat \<Rightarrow> nat \<Rightarrow> session_record" where
  "createSession sid ident now =
     \<lparr>sessionId = sid, identityId = ident, createdAt = now, expiresAt = now + maxAge\<rparr>"

definition expired :: "nat \<Rightarrow> session_record \<Rightarrow> bool" where
  "expired now r = (expiresAt r \<le> now)"

text \<open>Modelled from the spec: the eviction of the store drops the expired records.\<close>

definition evict :: "nat \<Rightarrow> (string \<rightharpoonup> session_record) \<Rightarrow> (string \<rightharpoonup> session_record)" where
  "evict now store sid =
     (case store sid of None \<Rightarrow> None | Some r \<Rightarrow> if expired now r then None else Some r)"

text \<open>
  Modelled from the spec: the Auth Gate looks the session up and rejects a missing or an
  expired one as Unauthenticated.
\<close>

definition auth_gate :: "nat \<Rightarrow> (string \<rightharpoonup> session_record) \<Rightarrow> string \<Rightarrow> auth_error + nat" where
  "auth_gate now store sid =
     (case store sid of
        None \<Rightarrow> Inl Unauthenticated
      | Some r \<Rightarrow> if expired now r then Inl Unauthenticated else Inr (identityId r))"

section \<open>Notions used in the statements\<close>

text \<open>The error of the first call in the list that rejects, if one does.\<close>

fun first_failure :: "env \<Rightarrow> event list \<Rightarrow> js_error option" where
  "first_failure en [] = None"
| "first_failure en (e # es) =
     (case fails en e of Some err \<Rightarrow> Some err | None \<Rightarrow> first_failure en es)"

text \<open>
  Of the calls in the list that reject, the one that settles first in time, with its
  time (of two at the same time, the one listed first).
\<close>

fun earliest :: "env \<Rightarrow> event list \<Rightarrow> (nat \<times> js_error) option" where
  "earliest en [] = None"
| "earliest en (e # es) =
     (case fails en e of
        None \<Rightarrow> earliest en es
      | Some err \<Rightarrow>
          (case earliest en es of
             None \<Rightarrow> Some (settles en e, err)
           | Some l \<Rightarrow> if settles en e \<le> fst l then Some (settles en e, err) else Some l))"

text \<open>The blobs among \<open>ps\<close> whose deletion does not reject.\<close>

definition deletable :: "env \<Rightarrow> string list \<Rightarrow> string list" where
  "deletable en ps = filter (\<lambda>p. fails en (DeleteFile p) = None) ps"

text \<open>The profile picture as the handler treats it: deleted only when it is truthy.\<close>

definition profile_picture :: "user \<Rightarrow> string list" where
  "profile_picture u = (case picture u of None \<Rightarrow> [] | Some p \<Rightarrow> if p \<noteq> [] then [p] else [])"

text \<open>
  The error with which the deletion of the snapshotted blobs ends: that of the profile
  picture, which is awaited alone, or else the first in time among the article pictures.
\<close>

definition blob_failure :: "env \<Rightarrow> user \<Rightarrow> string list \<Rightarrow> js_error option" where
  "blob_failure en u pics =
     (case first_failure en (map DeleteFile (profile_picture u)) of
        Some err \<Rightarrow> Some err
      | None \<Rightarrow> map_option snd (earliest en (map DeleteFile pics)))"

text \<open>
  The blobs whose deletion is started: the article pictures only when the profile
  picture was not rejected.
\<close>

definition started_blobs :: "env \<Rightarrow> user \<Rightarrow> string list \<Rightarrow> string list" where
  "started_blobs en u pics =
     profile_picture u @
     (if first_failure en (map DeleteFile (profile_picture u)) = None then pics else [])"

text \<open>
  What the caller and the error log get for an uncaught error when nothing was written
  before: a 500 response with the message, and a log entry with the message and the stack.
\<close>

definition hard_failure :: "js_error \<Rightarrow> state \<Rightarrow> state" where
  "hard_failure err s =
     s\<lparr>statusCode := 500,
       sent := [\<lparr>status = 500, body = ErrorBody (message err)\<rparr>],
       errorLog := errorLog s @
         [\<lparr>level = ''error'', log_message = message err, metadata = stack err,
           label = ''express''\<rparr>]\<rparr>"

text \<open>
  The attach-card route in the terms of its statement: the customer the card is created
  for, the update that is saved, and the calls of a run in which nothing fails.
\<close>

definition card_customer :: "env \<Rightarrow> user \<Rightarrow> string" where
  "card_customer en u =
     (if truthy (stripe_customer_id u)
      then (case stripe_customer_id u of None \<Rightarrow> [] | Some c \<Rightarrow> c)
      else customerIdOf en (email u))"

definition card_update :: "env \<Rightarrow> request \<Rightarrow> user \<Rightarrow> update_data" where
  "card_update en req u =
     no_update\<lparr>upd_stripe_customer_id :=
                 (if truthy (stripe_customer_id u) then None else Some (card_customer en u)),
               upd_stripe_card_id := Some (cardIdOf en (body_token req) (card_customer en u))\<rparr>"

definition card_calls :: "env \<Rightarrow> request \<Rightarrow> user \<Rightarrow> event list" where
  "card_calls en req u =
     (if truthy (stripe_customer_id u) then [] else [CreateCustomer (email u)]) @
     [CreateCard (body_token req) (card_customer en u),
      Update (user_id u) (card_update en req u)]"

text \<open>A token is valid for the session when it verifies against the secret of the session.\<close>

definition session_token_valid :: "env \<Rightarrow> state \<Rightarrow> string \<Rightarrow> bool" where
  "session_token_valid en s t =
     (case csrfSecret s of None \<Rightarrow> False | Some x \<Rightarrow> x \<noteq> [] \<and> verify en x t)"

text \<open>
  The response of a request: nothing written and the status code untouched, or exactly
  one response written. A middleware is disciplined when, from a response that is
  unanswered, it passes on without touching it, or answers once; when it signals an
  error it has left the response unanswered, or has answered with a status code of its
  own. A handler is answering when, from a response that is unanswered, it answers once
  if it resolves, and if it rejects has left the response unanswered or has answered
  with a status code of its own.
\<close>

definition unanswered :: "state \<Rightarrow> bool" where
  "unanswered s = (statusCode s = 200 \<and> sent s = [])"

definition answered :: "state \<Rightarrow> bool" where
  "answered s = (length (sent s) = 1)"

definition disciplined :: "flow action \<Rightarrow> bool" where
  "disciplined m =
     (\<forall>s. unanswered s \<longrightarrow>
        (case m s of
           (Inl e, s') \<Rightarrow> unanswered s' \<or> (answered s' \<and> statusCode s' \<noteq> 200)
         | (Inr Next, s') \<Rightarrow> unanswered s'
         | (Inr Done, s') \<Rightarrow> answered s'))"

definition answering :: "unit action \<Rightarrow> bool" where
  "answering h =
     (\<forall>s. unanswered s \<longrightarrow>
        (case h s of
           (Inl e, s') \<Rightarrow> unanswered s' \<or> (answered s' \<and> statusCode s' \<noteq> 200)
         | (Inr _, s') \<Rightarrow> answered s'))"

section \<open>Concrete runs\<close>

text \<open>
  Two users: one with a profile picture and three articles, two of them with a picture,
  and one who has a customer at the payment provider already.
\<close>

definition boom :: js_error where
  "boom = \<lparr>message = ''connect ECONNREFUSED 10.0.0.5:443'', stack = ''Error: connect ECONNREFUSED at TCPConnectWrap''\<rparr>"

definition late :: js_error where
  "late = \<lparr>message = ''request timed out'', stack = ''Error: request timed out at Timeout''\<rparr>"

definition alice :: user where
  "alice =
     \<lparr>user_id = 1, email = ''alice@example.org'', firstName = Some ''Alice'',
      lastName = Some ''Liddell'', picture = Some ''avatar.png'',
      stripe_customer_id = None, stripe_card_id = None\<rparr>"

definition bob :: user where
  "bob =
     \<lparr>user_id = 2, email = ''bob@example.org'', firstName = Some ''Bob'',
      lastName = None, picture = None,
      stripe_customer_id = Some ''cus_42'', stripe_card_id = Some ''card_old''\<rparr>"

definition quiet :: env where
  "quiet =
     \<lparr>fails = (\<lambda>e. None), settles = (\<lambda>e. 0), verify = (\<lambda>secret t. t = secret),
      newSecret = ''fresh'', newSalt = ''salt'', createToken = (\<lambda>secret salt. secret),
      customerIdOf = (\<lambda>mail. ''cus_'' @ mail), cardIdOf = (\<lambda>token c. ''card_'' @ token),
      frontendPage = ''index'', isLoggedIn = (\<lambda>req. resolve Next),
      editProfileValidation = (\<lambda>req. resolve Next), otherApiRoutes = (\<lambda>req. resolve Next),
      logoutResponse = (\<lambda>req. send (OtherBody ''logged out''))\<rparr>"

definition failing :: "event \<Rightarrow> env" where
  "failing e = quiet\<lparr>fails := (\<lambda>x. if x = e then Some boom else None)\<rparr>"

text \<open>
  The blob store rejects both article pictures; the one listed second settles first.
\<close>

definition racing :: env where
  "racing =
     quiet\<lparr>fails := (\<lambda>x. if x = DeleteFile ''a.png'' then Some boom
                         else if x = DeleteFile ''b.png'' then Some late else None),
           settles := (\<lambda>x. if x = DeleteFile ''a.png'' then 5
                           else if x = DeleteFile ''b.png'' then 2 else 0)\<rparr>"

definition store0 :: state where
  "store0 =
     \<lparr>users = [1 \<mapsto> alice, 2 \<mapsto> bob],
      articles = [(1, Some ''a.png''), (1, None), (1, Some ''b.png''), (2, Some ''z.png'')],
      blobs = {''avatar.png'', ''a.png'', ''b.png'', ''z.png''},
      views = [(1, 10), (2, 20)],
      sessionAlive = True, forceClosed = [], csrfSecret = Some ''k'',
      statusCode = 200, sent = [], cookies = [], infoLog = [], errorLog = [], trace = []\<rparr>"

definition delete_request :: request where
  "delete_request =
     \<lparr>req_method = DELETE, target = Profile, suppliedToken = Some ''k'', req_user = Some alice,
      body_token = [], body_firstName = None, body_lastName = None, file_url = None\<rparr>"

text \<open>The deletion in which the blob store rejects the profile picture.\<close>

definition avatar_failure_run :: "(js_error + unit) \<times> state" where
  "avatar_failure_run = delete_profile (failing (DeleteFile ''avatar.png'')) delete_request store0"

text \<open>The deletion in which the document store rejects, seen from the caller.\<close>

definition documents_failure_run :: state where
  "documents_failure_run = handled (delete_profile (failing (DeleteMany 1)) delete_request) store0"

text \<open>An error that reaches the error middleware before anything was written.\<close>

definition error_run :: "(js_error + unit) \<times> state" where
  "error_run = error_middleware boom store0"


text \<open>Two card requests.\<close>

definition card_request :: "user \<Rightarrow> request" where
  "card_request u =
     \<lparr>req_method = PUT, target = ProfileCard, suppliedToken = Some ''k'', req_user = Some u,
      body_token = ''tok_visa'', body_firstName = None, body_lastName = None, file_url = None\<rparr>"

text \<open>
  A request that changes state and carries no token, a page request, and their runs.
\<close>

definition forged_request :: request where
  "forged_request = delete_request\<lparr>suppliedToken := None\<rparr>"

definition forged_run :: state where
  "forged_run = run_request quiet forged_request store0"

definition page_request :: request where
  "page_request =
     \<lparr>req_method = GET, target = NonApi, suppliedToken = None, req_user = None,
      body_token = [], body_firstName = None, body_lastName = None, file_url = None\<rparr>"

definition proxy_failure_run :: state where
  "proxy_failure_run = run_request (failing FetchFrontend) page_request store0"

text \<open>An error that reaches the error middleware after the status code was set to 404.\<close>

definition guarded_error_run :: "(js_error + unit) \<times> state" where
  "guarded_error_run = error_middleware boom (store0\<lparr>statusCode := 404\<rparr>)"

section \<open>Steps of the handlers in closed form\<close>

lemma first_failure_append:
  "first_failure en (xs @ ys) =
     (case first_failure en xs of Some err \<Rightarrow> Some err | None \<Rightarrow> first_failure en ys)"
  by (induction xs) (simp_all split: option.splits)

lemma await_call:
  "await (call en e eff) f s =
     (case fails en e of
        Some err \<Rightarrow> (Inl err, s\<lparr>trace := trace s @ [e]\<rparr>)
      | None \<Rightarrow> f () (eff (s\<lparr>trace := trace s @ [e]\<rparr>)))"
  by (simp add: await_def call_def Let_def split: option.splits)

lemma await_findAll:
  "await (findAll en i) f s =
     (case fails en (FindAll i) of
        Some err \<Rightarrow> (Inl err, s\<lparr>trace := trace s @ [FindAll i]\<rparr>)
      | None \<Rightarrow> f (article_pictures s i) (s\<lparr>trace := trace s @ [FindAll i]\<rparr>))"
  by (simp add: await_def findAll_def Let_def split: option.splits)

lemma await_destroy:
  "await (destroy en i) f s =
     (case fails en (Destroy i) of
        Some err \<Rightarrow> (Inl err, s\<lparr>trace := trace s @ [Destroy i]\<rparr>)
      | None \<Rightarrow> f (if users s i = None then 0 else 1)
                 (s\<lparr>trace := trace s @ [Destroy i], users := (users s)(i := None)\<rparr>))"
  by (simp add: await_def destroy_def Let_def split: option.splits)

lemma await_infoLogger_log:
  "await (infoLogger_log m) f s = f () (s\<lparr>infoLog := infoLog s @ [m]\<rparr>)"
  by (simp add: await_def infoLogger_log_def)

lemma await_resolve: "await (resolve x) f s = f x s"
  by (simp add: await_def resolve_def)

lemma deletable_append: "deletable en (xs @ ys) = deletable en xs @ deletable en ys"
  by (simp add: deletable_def)

lemma deletable_Nil: "deletable en [] = []"
  by (simp add: deletable_def)

lemma deletable_Cons:
  "deletable en (p # ps) =
     (if fails en (DeleteFile p) = None then p # deletable en ps else deletable en ps)"
  by (simp add: deletable_def)

lemma Diff_set_twice: "A - set xs - set ys = A - set (xs @ ys)"
  by auto

lemma deleteFile_eq:
  "deleteFile en p s =
     (case fails en (DeleteFile p) of Some err \<Rightarrow> Inl err | None \<Rightarrow> Inr (),
      s\<lparr>trace := trace s @ [DeleteFile p], blobs := blobs s - set (deletable en [p])\<rparr>)"
  by (simp add: deleteFile_def call_def Let_def deletable_def split: option.splits)

lemma settle_all_deleteFile:
  "settle_all (map (\<lambda>url. (settles en (DeleteFile url), deleteFile en url)) ps) s =
     (earliest en (map DeleteFile ps),
      s\<lparr>trace := trace s @ map DeleteFile ps, blobs := blobs s - set (deletable en ps)\<rparr>)"
proof (induction ps arbitrary: s)
  case Nil
  then show ?case by (simp add: deletable_Nil)
next
  case (Cons p ps)
  let ?s1 = "s\<lparr>trace := trace s @ [DeleteFile p], blobs := blobs s - set (deletable en [p])\<rparr>"
  let ?rest = "map (\<lambda>url. (settles en (DeleteFile url), deleteFile en url)) ps"
  have step: "settle_all (map (\<lambda>url. (settles en (DeleteFile url), deleteFile en url)) (p # ps)) s =
      (case settle_all ?rest ?s1 of
         (later, s'') \<Rightarrow>
           (case fails en (DeleteFile p) of
              None \<Rightarrow> (later, s'')
            | Some e \<Rightarrow>
                (case later of
                   None \<Rightarrow> (Some (settles en (DeleteFile p), e), s'')
                 | Some l \<Rightarrow> if settles en (DeleteFile p) \<le> fst l
                             then (Some (settles en (DeleteFile p), e), s'') else (Some l, s''))))"
    by (simp add: deleteFile_eq [of en p s] split: option.splits prod.splits)
  have D: "blobs s - set (deletable en [p]) - set (deletable en ps) =
      blobs s - set (deletable en (p # ps))"
    by (auto simp: deletable_def)
  show ?case
    unfolding step Cons.IH [of ?s1]
    by (cases "fails en (DeleteFile p)") (simp_all add: D split: option.splits)
qed

lemma await_promise_all_deleteFile:
  "await (promise_all (map (\<lambda>url. (settles en (DeleteFile url), deleteFile en url)) ps)) f s =
     (case earliest en (map DeleteFile ps) of
        Some l \<Rightarrow> (Inl (snd l), s\<lparr>trace := trace s @ map DeleteFile ps,
                       blobs := blobs s - set (deletable en ps)\<rparr>)
      | None \<Rightarrow> f () (s\<lparr>trace := trace s @ map DeleteFile ps,
                       blobs := blobs s - set (deletable en ps)\<rparr>))"
  by (simp add: await_def promise_all_def settle_all_deleteFile split: option.splits)

lemma promise_all_if:
  "(if ps \<noteq> [] then promise_all (map f ps) else resolve ()) = promise_all (map f ps)"
  by (auto simp: resolve_def promise_all_def fun_eq_iff)

lemma await_profile_picture:
  "await (case picture u of
            None \<Rightarrow> resolve ()
          | Some p \<Rightarrow> if p \<noteq> [] then deleteFile en p else resolve ()) f s =
     (case first_failure en (map DeleteFile (profile_picture u)) of
        Some err \<Rightarrow> (Inl err, s\<lparr>trace := trace s @ map DeleteFile (profile_picture u),
                       blobs := blobs s - set (deletable en (profile_picture u))\<rparr>)
      | None \<Rightarrow> f () (s\<lparr>trace := trace s @ map DeleteFile (profile_picture u),
                       blobs := blobs s - set (deletable en (profile_picture u))\<rparr>))"
  by (cases "picture u")
    (simp_all add: profile_picture_def await_def resolve_def deleteFile_eq deletable_Nil
      split: option.splits)

lemmas delete_profile_steps =
  delete_profile_def Let_def await_profile_picture promise_all_if await_findAll await_destroy
  deleteMany_def await_call await_promise_all_deleteFile await_infoLogger_log

lemma delete_profile_run:
  assumes "req_user req = Some u"
  shows "delete_profile en req s =
     (let i = user_id u;
          pics = article_pictures s i;
          started = started_blobs en u pics
      in case fails en (FindAll i) of
           Some err \<Rightarrow> (Inl err, s\<lparr>trace := trace s @ [FindAll i]\<rparr>)
         | None \<Rightarrow>
        (case fails en (Destroy i) of
           Some err \<Rightarrow> (Inl err, s\<lparr>trace := trace s @ [FindAll i, Destroy i]\<rparr>)
         | None \<Rightarrow>
        (case blob_failure en u pics of
           Some err \<Rightarrow>
             (Inl err,
              s\<lparr>users := (users s)(i := None),
                blobs := blobs s - set (deletable en started),
                trace := trace s @ [FindAll i, Destroy i] @ map DeleteFile started\<rparr>)
         | None \<Rightarrow>
        (case fails en (DeleteMany i) of
           Some err \<Rightarrow>
             (Inl err,
              s\<lparr>users := (users s)(i := None),
                blobs := blobs s - set (deletable en started),
                trace := trace s @ [FindAll i, Destroy i] @ map DeleteFile started @
                  [DeleteMany i]\<rparr>)
         | None \<Rightarrow>
             logout en req
               (s\<lparr>users := (users s)(i := None),
                  blobs := blobs s - set (deletable en started),
                  trace := trace s @ [FindAll i, Destroy i] @ map DeleteFile started @
                    [DeleteMany i],
                  views := filter (\<lambda>(a, d). a \<noteq> i) (views s),
                  infoLog := infoLog s @ [UserDeleted i]\<rparr>)))))"
  using assms
  by (simp add: delete_profile_steps blob_failure_def started_blobs_def deletable_append
      deletable_Nil Diff_set_twice del: set_append split: option.splits)

lemma deletable_all_first_failure:
  "first_failure en (map DeleteFile ps) = None \<Longrightarrow> deletable en ps = ps"
  by (induction ps) (simp_all add: deletable_Nil deletable_Cons split: option.splits)

lemma deletable_all_earliest:
  "earliest en (map DeleteFile ps) = None \<Longrightarrow> deletable en ps = ps"
  by (induction ps) (simp_all add: deletable_Nil deletable_Cons split: option.splits if_splits)

lemma no_blob_failure:
  assumes "blob_failure en u pics = None"
  shows "started_blobs en u pics = profile_picture u @ pics"
    and "deletable en (profile_picture u @ pics) = profile_picture u @ pics"
  using assms
  by (simp_all add: blob_failure_def started_blobs_def deletable_append
      deletable_all_first_failure deletable_all_earliest split: option.splits)

lemma error_middleware_fresh:
  assumes "sent s = []"
  shows "error_middleware err s =
     (Inr (),
      s\<lparr>statusCode := (if statusCode s = 200 then 500 else statusCode s),
        sent := (if statusCode s = 200 then [\<lparr>status = 500, body = ErrorBody (message err)\<rparr>] else []),
        errorLog := errorLog s @
          [\<lparr>level = ''error'', log_message = message err, metadata = stack err,
            label = ''express''\<rparr>]\<rparr>)"
  using assms by (simp add: error_middleware_def send_def)

lemma error_middleware_hard_failure:
  assumes "statusCode s = 200" "sent s = []"
  shows "snd (error_middleware err s) = hard_failure err s"
  using assms by (simp add: error_middleware_fresh hard_failure_def)

lemmas examples =
  boom_def late_def alice_def bob_def quiet_def failing_def racing_def store0_def
  delete_request_def

lemmas evaluation =
  article_pictures_def profile_picture_def blob_failure_def started_blobs_def deletable_Cons
  deletable_Nil logout_def send_def Let_def

text \<open>
  C4. The deletion handler takes its steps in a fixed order, and each step has its
  effect when it is reached. The enumeration of the article pictures comes first, from
  the state in which nothing has been deleted; if it fails, nothing is deleted. Then the
  relational record is deleted; if that fails, no blob and no document is touched. Then
  the snapshotted blobs are deleted, the profile picture before the article pictures;
  then the derived documents of the user; and the session teardown is called last, in
  the state in which the record, the blobs and the documents are gone.
\<close>

theorem deletion_order:
  assumes "req_user req = Some u"
  shows "delete_profile en req s =
     (let i = user_id u;
          pics = article_pictures s i;
          started = started_blobs en u pics;
          snapshot = profile_picture u @ pics
      in case fails en (FindAll i) of
           Some err \<Rightarrow> (Inl err, s\<lparr>trace := trace s @ [FindAll i]\<rparr>)
         | None \<Rightarrow>
        (case fails en (Destroy i) of
           Some err \<Rightarrow> (Inl err, s\<lparr>trace := trace s @ [FindAll i, Destroy i]\<rparr>)
         | None \<Rightarrow>
        (case blob_failure en u pics of
           Some err \<Rightarrow>
             (Inl err,
              s\<lparr>users := (users s)(i := None),
                blobs := blobs s - set (deletable en started),
                trace := trace s @ [FindAll i, Destroy i] @ map DeleteFile started\<rparr>)
         | None \<Rightarrow>
        (case fails en (DeleteMany i) of
           Some err \<Rightarrow>
             (Inl err,
              s\<lparr>users := (users s)(i := None),
                blobs := blobs s - set snapshot,
                trace := trace s @ [FindAll i, Destroy i] @ map DeleteFile snapshot @
                  [DeleteMany i]\<rparr>)
         | None \<Rightarrow>
             logout en req
               (s\<lparr>users := (users s)(i := None),
                  blobs := blobs s - set snapshot,
                  trace := trace s @ [FindAll i, Destroy i] @ map DeleteFile snapshot @
                    [DeleteMany i],
                  views := filter (\<lambda>(a, d). a \<noteq> i) (views s),
                  infoLog := infoLog s @ [UserDeleted i]\<rparr>)))))"
proof (cases "blob_failure en u (article_pictures s (user_id u))")
  case None
  show ?thesis
    unfolding delete_profile_run [OF assms]
    using None no_blob_failure [OF None]
    by (simp add: Let_def split: option.splits)
next
  case (Some err)
  show ?thesis
    unfolding delete_profile_run [OF assms]
    using Some by (simp add: Let_def split: option.splits)
qed

text \<open>
  The deletion of the first user in which nothing fails: the calls in their order, the
  record, the three blobs and the documents of the user gone, those of the other user
  kept.
\<close>

theorem deletion_order_witness:
  "req_user delete_request = Some alice \<and>
   fst (delete_profile quiet delete_request store0) = Inr () \<and>
   trace (snd (delete_profile quiet delete_request store0)) =
     [FindAll 1, Destroy 1, DeleteFile ''avatar.png'', DeleteFile ''a.png'', DeleteFile ''b.png'',
      DeleteMany 1, Logout] \<and>
   users (snd (delete_profile quiet delete_request store0)) 1 = None \<and>
   users (snd (delete_profile quiet delete_request store0)) 2 = Some bob \<and>
   ''avatar.png'' \<notin> blobs (snd (delete_profile quiet delete_request store0)) \<and>
   ''a.png'' \<notin> blobs (snd (delete_profile quiet delete_request store0)) \<and>
   ''b.png'' \<notin> blobs (snd (delete_profile quiet delete_request store0)) \<and>
   ''z.png'' \<in> blobs (snd (delete_profile quiet delete_request store0)) \<and>
   views (snd (delete_profile quiet delete_request store0)) = [(2, 20)]"
proof -
  have u: "req_user delete_request = Some alice"
    by (simp add: delete_request_def)
  show ?thesis
    unfolding deletion_order [OF u]
    by (simp add: examples evaluation)
qed

text \<open>
  C1, as the code has it. Blob deletion is fail-fast, not collect-errors. When the
  enumeration and the relational deletion succeed and the deletion of a snapshotted blob
  rejects, the handler ends with an error: that of the profile picture, or else the
  rejection of an article picture that settles first in time. The relational record
  stays deleted; the derived documents are not deleted, the session teardown is not
  called and the handler logs nothing. A rejected profile picture keeps the article
  pictures from being started at all; a rejected article picture does not keep the other
  article pictures from being started, since \<^verbatim>\<open>Promise.all\<close> starts them together.
\<close>

theorem blob_failure_aborts_cleanup:
  assumes "req_user req = Some u"
    and "fails en (FindAll (user_id u)) = None"
    and "fails en (Destroy (user_id u)) = None"
    and "blob_failure en u (article_pictures s (user_id u)) = Some err"
  shows "delete_profile en req s =
     (Inl err,
      s\<lparr>users := (users s)(user_id u := None),
        blobs := blobs s -
          set (deletable en (started_blobs en u (article_pictures s (user_id u)))),
        trace := trace s @ [FindAll (user_id u), Destroy (user_id u)] @
          map DeleteFile (started_blobs en u (article_pictures s (user_id u)))\<rparr>)"
  unfolding delete_profile_run [OF assms(1)]
  using assms(2-4) by (simp add: Let_def)

text \<open>
  Both article pictures are rejected and the one listed second settles first: the handler
  ends with its error, both were started, the profile picture is gone, the documents
  stay and nothing is logged.
\<close>

theorem blob_failure_aborts_cleanup_witness:
  "req_user delete_request = Some alice \<and>
   fails racing (FindAll (user_id alice)) = None \<and>
   fails racing (Destroy (user_id alice)) = None \<and>
   blob_failure racing alice (article_pictures store0 (user_id alice)) = Some late \<and>
   fst (delete_profile racing delete_request store0) = Inl late \<and>
   trace (snd (delete_profile racing delete_request store0)) =
     [FindAll 1, Destroy 1, DeleteFile ''avatar.png'', DeleteFile ''a.png'', DeleteFile ''b.png''] \<and>
   users (snd (delete_profile racing delete_request store0)) 1 = None \<and>
   ''avatar.png'' \<notin> blobs (snd (delete_profile racing delete_request store0)) \<and>
   ''a.png'' \<in> blobs (snd (delete_profile racing delete_request store0)) \<and>
   views (snd (delete_profile racing delete_request store0)) = [(1, 10), (2, 20)] \<and>
   errorLog (snd (delete_profile racing delete_request store0)) = []"
proof -
  have h: "req_user delete_request = Some alice"
    "fails racing (FindAll (user_id alice)) = None"
    "fails racing (Destroy (user_id alice)) = None"
    "blob_failure racing alice (article_pictures store0 (user_id alice)) = Some late"
    by (simp_all add: examples evaluation)
  show ?thesis
    using h unfolding blob_failure_aborts_cleanup [OF h]
    by (simp add: examples evaluation)
qed

text \<open>
  C1 as the spec states it fails: the profile picture is rejected, and the other
  snapshotted blob is neither deleted nor attempted, the derived documents are not
  deleted, and the handler collects nothing in the error log.
\<close>

theorem blob_failure_counterexample:
  "fails (failing (DeleteFile ''avatar.png'')) (DeleteFile ''avatar.png'') = Some boom \<and>
   fails (failing (DeleteFile ''avatar.png'')) (DeleteFile ''a.png'') = None \<and>
   ''a.png'' \<in> blobs (snd avatar_failure_run) \<and>
   DeleteFile ''a.png'' \<notin> set (trace (snd avatar_failure_run)) \<and>
   DeleteMany 1 \<notin> set (trace (snd avatar_failure_run)) \<and>
   views (snd avatar_failure_run) = [(1, 10), (2, 20)] \<and>
   errorLog (snd avatar_failure_run) = []"
proof -
  have u: "req_user delete_request = Some alice"
    by (simp add: delete_request_def)
  show ?thesis
    unfolding avatar_failure_run_def delete_profile_run [OF u]
    by (simp add: examples evaluation)
qed

lemma handled_reject:
  assumes "h s = (Inl err, s1)" "statusCode s1 = 200" "sent s1 = []"
  shows "handled h s = hard_failure err s1"
  using assms by (simp add: handled_def error_middleware_hard_failure)

text \<open>
  C2, as the code has it. The handler catches nothing, so every awaited call that rejects
  ends it, and not only the relational deletion: for a request whose response is still
  unwritten, a failure of the enumeration, of the relational deletion, of a blob
  deletion or of the document deletion aborts the rest of the handler (no later step is
  started, no later effect happens, the session teardown is not called) and
  \<^verbatim>\<open>asyncHandler\<close> hands the error to the error middleware: the caller gets a 500 response
  with the message of the error, which goes to the error log. When none of these fails,
  what the caller gets is what the session teardown makes of the request.
\<close>

theorem any_failure_is_a_hard_failure:
  assumes "req_user req = Some u" and "statusCode s = 200" and "sent s = []"
  shows "handled (delete_profile en req) s =
     (let i = user_id u;
          pics = article_pictures s i;
          started = started_blobs en u pics;
          snapshot = profile_picture u @ pics
      in case fails en (FindAll i) of
           Some err \<Rightarrow> hard_failure err (s\<lparr>trace := trace s @ [FindAll i]\<rparr>)
         | None \<Rightarrow>
        (case fails en (Destroy i) of
           Some err \<Rightarrow> hard_failure err (s\<lparr>trace := trace s @ [FindAll i, Destroy i]\<rparr>)
         | None \<Rightarrow>
        (case blob_failure en u pics of
           Some err \<Rightarrow>
             hard_failure err
               (s\<lparr>users := (users s)(i := None),
                  blobs := blobs s - set (deletable en started),
                  trace := trace s @ [FindAll i, Destroy i] @ map DeleteFile started\<rparr>)
         | None \<Rightarrow>
        (case fails en (DeleteMany i) of
           Some err \<Rightarrow>
             hard_failure err
               (s\<lparr>users := (users s)(i := None),
                  blobs := blobs s - set snapshot,
                  trace := trace s @ [FindAll i, Destroy i] @ map DeleteFile snapshot @
                    [DeleteMany i]\<rparr>)
         | None \<Rightarrow>
             handled (logout en req)
               (s\<lparr>users := (users s)(i := None),
                  blobs := blobs s - set snapshot,
                  trace := trace s @ [FindAll i, Destroy i] @ map DeleteFile snapshot @
                    [DeleteMany i],
                  views := filter (\<lambda>(a, d). a \<noteq> i) (views s),
                  infoLog := infoLog s @ [UserDeleted i]\<rparr>)))))"
proof (cases "blob_failure en u (article_pictures s (user_id u))")
  case None
  show ?thesis
    using None no_blob_failure [OF None] assms(2,3)
    by (simp add: handled_def [of "delete_profile en req"] delete_profile_run [OF assms(1)]
        Let_def error_middleware_hard_failure handled_def [of "logout en req", symmetric]
        split: option.splits)
next
  case (Some err)
  show ?thesis
    using Some assms(2,3)
    by (simp add: handled_def [of "delete_profile en req"] delete_profile_run [OF assms(1)]
        Let_def error_middleware_hard_failure split: option.splits)
qed

text \<open>
  The relational deletion is rejected: the caller gets a 500, the row, the blobs and the
  documents are still there, and the only calls are the enumeration and the rejected
  delete.
\<close>

theorem any_failure_is_a_hard_failure_witness:
  "req_user delete_request = Some alice \<and> statusCode store0 = 200 \<and> sent store0 = [] \<and>
   handled (delete_profile (failing (Destroy 1)) delete_request) store0 =
     hard_failure boom (store0\<lparr>trace := [FindAll 1, Destroy 1]\<rparr>) \<and>
   sent (handled (delete_profile (failing (Destroy 1)) delete_request) store0) =
     [\<lparr>status = 500, body = ErrorBody ''connect ECONNREFUSED 10.0.0.5:443''\<rparr>] \<and>
   users (handled (delete_profile (failing (Destroy 1)) delete_request) store0) 1 = Some alice \<and>
   blobs (handled (delete_profile (failing (Destroy 1)) delete_request) store0) = blobs store0 \<and>
   views (handled (delete_profile (failing (Destroy 1)) delete_request) store0) = views store0"
proof -
  have h: "req_user delete_request = Some alice" "statusCode store0 = 200" "sent store0 = []"
    by (simp_all add: examples)
  show ?thesis
    using h unfolding any_failure_is_a_hard_failure [OF h]
    by (simp add: examples evaluation hard_failure_def)
qed

text \<open>
  C2 as the spec states it fails: the relational record is deleted, the document store
  then rejects, and the caller gets a 500 response, not success.
\<close>

theorem later_failure_counterexample:
  "fails (failing (DeleteMany 1)) (Destroy 1) = None \<and>
   fails (failing (DeleteMany 1)) (DeleteMany 1) = Some boom \<and>
   users documents_failure_run 1 = None \<and>
   sent documents_failure_run =
     [\<lparr>status = 500, body = ErrorBody ''connect ECONNREFUSED 10.0.0.5:443''\<rparr>]"
proof -
  have u: "req_user delete_request = Some alice"
    by (simp add: delete_request_def)
  show ?thesis
    unfolding documents_failure_run_def handled_def delete_profile_run [OF u]
    by (simp add: examples evaluation error_middleware_def)
qed

text \<open>
  C3, as the code has it. For an error that reaches the error middleware before anything
  was written: when the status code is still 200 the caller gets a 500 response whose
  body is the message of the error (the stack is not part of it), otherwise the
  middleware writes no response; in both cases an entry with the message and the stack
  goes to the error log.
\<close>

theorem error_response_and_log:
  assumes "sent s = []"
  shows "let s' = snd (error_middleware err s)
         in fst (error_middleware err s) = Inr () \<and>
            sent s' = (if statusCode s = 200
                       then [\<lparr>status = 500, body = ErrorBody (message err)\<rparr>] else []) \<and>
            errorLog s' = errorLog s @
              [\<lparr>level = ''error'', log_message = message err, metadata = stack err,
                label = ''express''\<rparr>]"
  using assms by (simp add: error_middleware_fresh)

text \<open>
  The response and the log entry for a refused connection.
\<close>

theorem error_response_and_log_witness:
  "sent store0 = [] \<and>
   sent (snd (error_middleware boom store0)) =
     [\<lparr>status = 500, body = ErrorBody ''connect ECONNREFUSED 10.0.0.5:443''\<rparr>] \<and>
   errorLog (snd (error_middleware boom store0)) =
     [\<lparr>level = ''error'', log_message = ''connect ECONNREFUSED 10.0.0.5:443'',
       metadata = ''Error: connect ECONNREFUSED at TCPConnectWrap'', label = ''express''\<rparr>]"
  using error_response_and_log [where s = store0 and err = boom]
  by (simp add: Let_def examples)

text \<open>
  C3 as the spec states it fails: the body of the response is the message of the
  internal error, here with the address of the host that refused the connection.
\<close>

theorem error_message_exposed_counterexample:
  "message boom = ''connect ECONNREFUSED 10.0.0.5:443'' \<and>
   map body (sent (snd error_run)) = [ErrorBody ''connect ECONNREFUSED 10.0.0.5:443'']"
  by (simp add: error_run_def error_middleware_def send_def examples)

lemma article_pictures_users [simp]:
  "article_pictures (s\<lparr>users := w\<rparr>) i = article_pictures s i"
  by (simp add: article_pictures_def)




lemma truthy_simps: "truthy None = False" "truthy (Some x) = (x \<noteq> [])"
  by (simp_all add: truthy_def)

lemma await_assoc: "await (await m g) f = await m (\<lambda>x. await (g x) f)"
  by (auto simp: await_def fun_eq_iff split: prod.splits sum.splits)

lemma await_update:
  "await (update en u d) f s =
     (case fails en (Update (user_id u) d) of
        Some err \<Rightarrow> (Inl err, s\<lparr>trace := trace s @ [Update (user_id u) d]\<rparr>)
      | None \<Rightarrow> f (apply_update d u)
                 (s\<lparr>trace := trace s @ [Update (user_id u) d],
                    users := (case users s (user_id u) of
                                None \<Rightarrow> users s
                              | Some row \<Rightarrow> (users s)(user_id u \<mapsto> apply_update d row))\<rparr>))"
  by (simp add: await_def update_def Let_def split: option.splits)

lemmas put_card_steps =
  put_card_def Let_def createCustomer_def createCard_def await_assoc await_call await_resolve
  await_update send_def card_customer_def card_update_def card_calls_def no_update_def

lemma put_card_trace_prefix:
  assumes "req_user req = Some u"
  shows "prefix (trace (snd (put_card en req s))) (trace s @ card_calls en req u)"
  using assms
  by (cases "stripe_customer_id u") (simp_all add: put_card_steps truthy_simps split: option.splits)

lemma put_card_creates_customer:
  assumes "req_user req = Some u" "\<not> truthy (stripe_customer_id u)"
  shows "prefix (trace s @ [CreateCustomer (email u)]) (trace (snd (put_card en req s)))"
  using assms
  by (cases "stripe_customer_id u") (simp_all add: put_card_steps truthy_simps split: option.splits)

lemma put_card_success:
  assumes "req_user req = Some u" "fst (put_card en req s) = Inr ()"
  shows "trace (snd (put_card en req s)) = trace s @ card_calls en req u"
    and "users (snd (put_card en req s)) =
           (case users s (user_id u) of
              None \<Rightarrow> users s
            | Some row \<Rightarrow> (users s)(user_id u \<mapsto> apply_update (card_update en req u) row))"
    and "sent (snd (put_card en req s)) =
           [\<lparr>status = statusCode s, body = UserBody (apply_update (card_update en req u) u)\<rparr>]"
  using assms
  by (cases "stripe_customer_id u"; simp add: put_card_steps truthy_simps split: option.splits if_splits)+

lemma put_card_succeeds:
  assumes "req_user req = Some u" "sent s = []" "first_failure en (card_calls en req u) = None"
  shows "fst (put_card en req s) = Inr ()"
  using assms
  by (cases "stripe_customer_id u") (simp_all add: put_card_steps truthy_simps split: option.splits if_splits)

text \<open>
  C10. In the attach-card handler a customer is created at the payment provider only when
  the customer reference of the authenticated user is falsy (null or empty), and then as
  the first call; when the user has a customer reference, no customer is created, the
  card is created for that reference and the update that is saved does not carry the
  key, so the reference in the row of the user stays as it was. The update sets the card
  reference of the row to the id that the card-creation call returned, and the customer
  reference only when a customer was created; on success that update has been applied to
  the row of the user, no other row has changed, and the user is sent back with it.
\<close>

theorem card_attachment:
  assumes "req_user req = Some u"
  shows "let s' = snd (put_card en req s);
             d = card_update en req u;
             customer = card_customer en u
         in prefix (trace s') (trace s @ card_calls en req u) \<and>
            stripe_card_id (apply_update d row) = Some (cardIdOf en (body_token req) customer) \<and>
            (truthy (stripe_customer_id u) \<longrightarrow>
               card_calls en req u = [CreateCard (body_token req) customer, Update (user_id u) d] \<and>
               stripe_customer_id u = Some customer \<and>
               upd_stripe_customer_id d = None \<and>
               stripe_customer_id (apply_update d row) = stripe_customer_id row) \<and>
            (\<not> truthy (stripe_customer_id u) \<longrightarrow>
               prefix (trace s @ [CreateCustomer (email u)]) (trace s') \<and>
               customer = customerIdOf en (email u) \<and>
               stripe_customer_id (apply_update d row) = Some customer) \<and>
            (fst (put_card en req s) = Inr () \<longrightarrow>
               trace s' = trace s @ card_calls en req u \<and>
               users s' =
                 (case users s (user_id u) of
                    None \<Rightarrow> users s
                  | Some r \<Rightarrow> (users s)(user_id u \<mapsto> apply_update d r)) \<and>
               sent s' = [\<lparr>status = statusCode s, body = UserBody (apply_update d u)\<rparr>])"
proof -
  have A: "truthy (stripe_customer_id u) \<Longrightarrow>
      card_calls en req u =
        [CreateCard (body_token req) (card_customer en u), Update (user_id u) (card_update en req u)] \<and>
      stripe_customer_id u = Some (card_customer en u) \<and>
      upd_stripe_customer_id (card_update en req u) = None \<and>
      stripe_customer_id (apply_update (card_update en req u) row) = stripe_customer_id row"
    by (cases "stripe_customer_id u")
      (simp_all add: card_calls_def card_customer_def card_update_def no_update_def apply_update_def
        truthy_simps)
  have B: "stripe_card_id (apply_update (card_update en req u) row) =
        Some (cardIdOf en (body_token req) (card_customer en u))"
    by (simp add: card_update_def no_update_def apply_update_def)
  have C: "\<not> truthy (stripe_customer_id u) \<Longrightarrow>
      card_customer en u = customerIdOf en (email u) \<and>
      stripe_customer_id (apply_update (card_update en req u) row) = Some (card_customer en u)"
    by (simp add: card_customer_def card_update_def no_update_def apply_update_def)
  show ?thesis
    using A B C put_card_trace_prefix [OF assms, where en = en and s = s]
      put_card_creates_customer [OF assms, where en = en and s = s]
      put_card_success [OF assms, where en = en and s = s]
    by (simp add: Let_def)
qed

text \<open>
  The second user has a customer and his stored row differs from the copy in the request:
  no customer is created, the row keeps its customer and its other columns and gets the
  new card. The first user has no customer and gets one as the first call.
\<close>

theorem card_attachment_witness:
  "req_user (card_request (bob\<lparr>lastName := Some ''Stale''\<rparr>)) = Some (bob\<lparr>lastName := Some ''Stale''\<rparr>) \<and>
   truthy (stripe_customer_id (bob\<lparr>lastName := Some ''Stale''\<rparr>)) \<and>
   fst (put_card quiet (card_request (bob\<lparr>lastName := Some ''Stale''\<rparr>)) store0) = Inr () \<and>
   trace (snd (put_card quiet (card_request (bob\<lparr>lastName := Some ''Stale''\<rparr>)) store0)) =
     [CreateCard ''tok_visa'' ''cus_42'',
      Update 2 \<lparr>upd_firstName = None, upd_lastName = None, upd_picture = None,
               upd_stripe_customer_id = None, upd_stripe_card_id = Some ''card_tok_visa''\<rparr>] \<and>
   users (snd (put_card quiet (card_request (bob\<lparr>lastName := Some ''Stale''\<rparr>)) store0)) 2 =
     Some (bob\<lparr>stripe_card_id := Some ''card_tok_visa''\<rparr>) \<and>
   users (snd (put_card quiet (card_request (bob\<lparr>lastName := Some ''Stale''\<rparr>)) store0)) 1 =
     Some alice \<and>
   req_user (card_request alice) = Some alice \<and> \<not> truthy (stripe_customer_id alice) \<and>
   prefix [CreateCustomer ''alice@example.org'']
     (trace (snd (put_card quiet (card_request alice) store0)))"
proof -
  let ?b = "bob\<lparr>lastName := Some ''Stale''\<rparr>"
  have ok: "fst (put_card quiet (card_request ?b) store0) = Inr ()"
    by (rule put_card_succeeds [where u = ?b])
      (simp_all add: card_request_def examples card_calls_def)
  show ?thesis
    using ok card_attachment [where req = "card_request ?b" and u = ?b and en = quiet and s = store0
        and row = bob]
      card_attachment [where req = "card_request alice" and u = alice and en = quiet and s = store0
        and row = alice]
    by (simp add: Let_def card_request_def examples card_calls_def card_customer_def
        card_update_def no_update_def apply_update_def truthy_simps)
qed

lemma chain_library_stage:
  "chain (library_stage en e) k s =
     (case fails en e of
        Some err \<Rightarrow> (Inl err, s\<lparr>trace := trace s @ [e]\<rparr>)
      | None \<Rightarrow> k (s\<lparr>trace := trace s @ [e]\<rparr>))"
  by (simp add: chain_def library_stage_def await_assoc await_call await_resolve split: option.splits)

lemma chain_csrf:
  "chain (csrf en req) k s =
     (if \<not> ignoreMethod (req_method req) \<and>
         \<not> token_verifies en (session_secret en s) (suppliedToken req)
      then (Inl invalid_csrf_token, s\<lparr>csrfSecret := Some (session_secret en s)\<rparr>)
      else k (s\<lparr>csrfSecret := Some (session_secret en s)\<rparr>))"
  by (simp add: chain_def csrf_def await_def Let_def)

lemma chain_xsrf_cookie:
  "chain (xsrf_cookie en) k s =
     k (s\<lparr>csrfSecret := Some (session_secret en s),
          cookies := cookies s @
            [(''XSRF-TOKEN'', createToken en (session_secret en s) (newSalt en))]\<rparr>)"
  by (simp add: chain_def xsrf_cookie_def await_def Let_def)

lemma session_secret_trace [simp]:
  "session_secret en (s\<lparr>trace := t\<rparr>) = session_secret en s"
  by (simp add: session_secret_def)

lemma session_secret_set [simp]:
  "session_secret en (s\<lparr>csrfSecret := Some (session_secret en s)\<rparr>) = session_secret en s"
  by (simp add: session_secret_def split: option.splits)

lemma error_middleware_stores:
  "users (snd (error_middleware err s)) = users s"
  "articles (snd (error_middleware err s)) = articles s"
  "blobs (snd (error_middleware err s)) = blobs s"
  "views (snd (error_middleware err s)) = views s"
  "sessionAlive (snd (error_middleware err s)) = sessionAlive s"
  "infoLog (snd (error_middleware err s)) = infoLog s"
  "cookies (snd (error_middleware err s)) = cookies s"
  "trace (snd (error_middleware err s)) = trace s"
  "csrfSecret (snd (error_middleware err s)) = csrfSecret s"
  by (simp_all add: error_middleware_def send_def)

lemma run_stack_append: "run_stack (xs @ ys) = chain (run_stack xs) (run_stack ys)"
proof (induction xs)
  case Nil
  show ?case by (simp add: chain_def await_resolve fun_eq_iff)
next
  case (Cons m ms)
  have assoc: "chain (chain m a) b = chain m (chain a b)" for a b
    by (auto simp: chain_def await_def resolve_def fun_eq_iff split: prod.splits sum.splits flow.splits)
  show ?case by (simp add: Cons.IH assoc)
qed

lemma security_stack_rejects:
  assumes "\<not> ignoreMethod (req_method req)"
    and "\<not> token_verifies en (session_secret en s) (suppliedToken req)"
  shows "\<exists>err s'. run_stack (app_stack en req) s = (Inl err, s') \<and>
           prefix (trace s') (trace s @ [ParseUrlencoded, ParseJson, LoadSession]) \<and>
           users s' = users s \<and> articles s' = articles s \<and> blobs s' = blobs s \<and>
           views s' = views s \<and> sessionAlive s' = sessionAlive s \<and> infoLog s' = infoLog s \<and>
           cookies s' = cookies s \<and> statusCode s' = statusCode s \<and> sent s' = sent s \<and>
           (first_failure en [ParseUrlencoded, ParseJson, LoadSession] = None \<longrightarrow>
              err = invalid_csrf_token)"
  using assms
  by (simp add: app_stack_def security_stack_def chain_library_stage chain_csrf
      split: option.splits)

text \<open>
  C5. The CSRF middleware is mounted before the routers. A request whose method is not
  GET, HEAD or OPTIONS and whose token is missing or does not verify against the secret
  of the session is passed to the error middleware by it: the only calls of the run are
  those of the body parsers and of the session load, no route handler and no middleware
  of the routers runs, and the users, articles, blobs, documents, session, info log and
  cookies are what they were. The caller gets the error response.
\<close>

theorem csrf_rejection_precedes_handlers:
  assumes "\<not> ignoreMethod (req_method req)"
    and "\<not> token_verifies en (session_secret en s) (suppliedToken req)"
  shows "let s' = run_request en req s
         in prefix (trace s') (trace s @ [ParseUrlencoded, ParseJson, LoadSession]) \<and>
            users s' = users s \<and> articles s' = articles s \<and> blobs s' = blobs s \<and>
            views s' = views s \<and> sessionAlive s' = sessionAlive s \<and>
            infoLog s' = infoLog s \<and> cookies s' = cookies s \<and>
            (statusCode s = 200 \<and> sent s = [] \<and>
             first_failure en [ParseUrlencoded, ParseJson, LoadSession] = None \<longrightarrow>
               sent s' = [\<lparr>status = 500, body = ErrorBody ''invalid csrf token''\<rparr>])"
proof -
  obtain err s1 where R: "run_stack (app_stack en req) s = (Inl err, s1)"
    and P: "prefix (trace s1) (trace s @ [ParseUrlencoded, ParseJson, LoadSession])"
      "users s1 = users s" "articles s1 = articles s" "blobs s1 = blobs s"
      "views s1 = views s" "sessionAlive s1 = sessionAlive s" "infoLog s1 = infoLog s"
      "cookies s1 = cookies s" "statusCode s1 = statusCode s" "sent s1 = sent s"
      "first_failure en [ParseUrlencoded, ParseJson, LoadSession] = None \<longrightarrow>
              err = invalid_csrf_token"
    using security_stack_rejects [OF assms] by (elim exE conjE) (rule that, assumption+)
  have S: "run_request en req s = snd (error_middleware err s1)"
    by (simp add: run_request_def R)
  show ?thesis
    unfolding Let_def S
    using P by (auto simp: error_middleware_stores error_middleware_fresh invalid_csrf_token_def)
qed

text \<open>
  The deletion request without a token leaves every store as it was.
\<close>

theorem csrf_rejection_precedes_handlers_witness:
  "\<not> ignoreMethod (req_method forged_request) \<and>
   \<not> token_verifies quiet (session_secret quiet store0) (suppliedToken forged_request) \<and>
   users forged_run = users store0 \<and> blobs forged_run = blobs store0 \<and>
   views forged_run = views store0 \<and>
   sent forged_run = [\<lparr>status = 500, body = ErrorBody ''invalid csrf token''\<rparr>]"
  using csrf_rejection_precedes_handlers [where req = forged_request and en = quiet and s = store0]
  by (simp add: Let_def forged_run_def forged_request_def examples ignoreMethod_def
      token_verifies_def)

lemma session_secret_set_trace [simp]:
  "session_secret en (s\<lparr>trace := t, csrfSecret := Some (session_secret en s)\<rparr>) =
     session_secret en s"
  by (simp add: session_secret_def split: option.splits)

lemma security_stack_run:
  "run_stack (security_stack en req) s =
     (case first_failure en [ParseUrlencoded, ParseJson, LoadSession] of
        Some err \<Rightarrow>
          (Inl err,
           s\<lparr>trace := trace s @
               (if fails en ParseUrlencoded \<noteq> None then [ParseUrlencoded]
                else if fails en ParseJson \<noteq> None then [ParseUrlencoded, ParseJson]
                else [ParseUrlencoded, ParseJson, LoadSession])\<rparr>)
      | None \<Rightarrow>
          (if \<not> ignoreMethod (req_method req) \<and>
              \<not> token_verifies en (session_secret en s) (suppliedToken req)
           then (Inl invalid_csrf_token,
                 s\<lparr>trace := trace s @ [ParseUrlencoded, ParseJson, LoadSession],
                   csrfSecret := Some (session_secret en s)\<rparr>)
           else (Inr Next,
                 s\<lparr>trace := trace s @ [ParseUrlencoded, ParseJson, LoadSession],
                   csrfSecret := Some (session_secret en s),
                   cookies := cookies s @
                     [(''XSRF-TOKEN'', createToken en (session_secret en s) (newSalt en))]\<rparr>)))"
  by (simp add: security_stack_def chain_library_stage chain_csrf chain_xsrf_cookie resolve_def
      split: option.splits)

lemma session_secret_truthy:
  "truthy (csrfSecret s) \<Longrightarrow> Some (session_secret en s) = csrfSecret s"
  by (simp add: truthy_def session_secret_def split: option.splits)

lemma handlers_keep_secret:
  "csrfSecret (snd (put_profile en req s)) = csrfSecret s"
  "csrfSecret (snd (put_picture en req s)) = csrfSecret s"
  "csrfSecret (snd (put_card en req s)) = csrfSecret s"
  "csrfSecret (snd (delete_profile en req s)) = csrfSecret s \<or>
     \<not> sessionAlive (snd (delete_profile en req s))"
proof -
  show "csrfSecret (snd (put_profile en req s)) = csrfSecret s"
    by (simp add: put_profile_def Let_def await_update await_infoLogger_log send_def reject_def
        split: option.splits)
  show "csrfSecret (snd (put_picture en req s)) = csrfSecret s"
  proof (cases "req_user req")
    case None
    then show ?thesis by (simp add: put_picture_def reject_def)
  next
    case (Some u)
    show ?thesis
    proof (cases "file_url req")
      case None
      with Some show ?thesis by (simp add: put_picture_def reject_def)
    next
      case (Some url)
      with \<open>req_user req = Some u\<close> show ?thesis
        by (cases "fails en (Update (user_id u) (no_update\<lparr>upd_picture := Some url\<rparr>))";
            cases "first_failure en (map DeleteFile (profile_picture u))")
          (simp_all add: put_picture_def Let_def await_update await_infoLogger_log send_def
            await_profile_picture)
    qed
  qed
  show "csrfSecret (snd (put_card en req s)) = csrfSecret s"
    by (cases "req_user req"; cases "stripe_customer_id (the (req_user req))")
      (simp_all add: put_card_def Let_def createCustomer_def createCard_def await_assoc await_call
        await_resolve await_update send_def reject_def truthy_simps split: option.splits)
  show "csrfSecret (snd (delete_profile en req s)) = csrfSecret s \<or>
     \<not> sessionAlive (snd (delete_profile en req s))"
  proof (cases "req_user req")
    case None
    then show ?thesis by (simp add: delete_profile_def reject_def)
  next
    case (Some u)
    show ?thesis
      unfolding delete_profile_run [OF Some]
      by (simp add: Let_def logout_def split: option.splits prod.splits)
  qed
qed


text \<open>
  C9, as the code has it. The stages before the routers never replace the secret of a
  session that has one, so a token that is valid for the session stays valid: nothing is
  rotated per request. The XSRF-TOKEN cookie is set to a token made from the secret of the session
  on every request that gets past the body parsers, the session load and the CSRF check,
  whatever its method and path; a request that one of these stages passes to the error
  middleware gets its response without the cookie. Of the handlers of the profile
  router, none touches the secret, except that the deletion ends the session.
\<close>

theorem csrf_secret_kept_and_cookie_set:
  "let r = fst (run_stack (security_stack en req) s);
       s' = snd (run_stack (security_stack en req) s)
   in (session_token_valid en s t \<longrightarrow> session_token_valid en s' t) \<and>
      (truthy (csrfSecret s) \<longrightarrow> csrfSecret s' = csrfSecret s) \<and>
      (r = Inr Next \<longrightarrow>
         cookies s' = cookies s @
           [(''XSRF-TOKEN'', createToken en (session_secret en s) (newSalt en))]) \<and>
      (r \<noteq> Inr Next \<longrightarrow> (\<exists>err. r = Inl err) \<and> cookies s' = cookies s) \<and>
      csrfSecret (snd (put_profile en req h)) = csrfSecret h \<and>
      csrfSecret (snd (put_picture en req h)) = csrfSecret h \<and>
      csrfSecret (snd (put_card en req h)) = csrfSecret h \<and>
      (sessionAlive (snd (delete_profile en req h)) \<longrightarrow>
         csrfSecret (snd (delete_profile en req h)) = csrfSecret h)"
proof -
  have keep: "truthy (csrfSecret s) \<Longrightarrow>
      csrfSecret (snd (run_stack (security_stack en req) s)) = csrfSecret s"
    by (simp add: security_stack_run session_secret_truthy split: option.splits)
  have valid: "session_token_valid en s t \<Longrightarrow> truthy (csrfSecret s)"
    by (simp add: session_token_valid_def truthy_def split: option.splits)
  have tok: "session_token_valid en s t \<Longrightarrow>
      session_token_valid en (snd (run_stack (security_stack en req) s)) t"
    using keep valid by (simp add: session_token_valid_def)
  have cook: "fst (run_stack (security_stack en req) s) = Inr Next \<Longrightarrow>
      cookies (snd (run_stack (security_stack en req) s)) = cookies s @
           [(''XSRF-TOKEN'', createToken en (session_secret en s) (newSalt en))]"
    by (simp add: security_stack_run split: option.splits if_splits)
  have nocook: "fst (run_stack (security_stack en req) s) \<noteq> Inr Next \<Longrightarrow>
      (\<exists>err. fst (run_stack (security_stack en req) s) = Inl err) \<and>
      cookies (snd (run_stack (security_stack en req) s)) = cookies s"
    by (simp add: security_stack_run split: option.splits if_splits)
  show ?thesis
    unfolding Let_def
    using keep tok cook nocook handlers_keep_secret [of en req h] by blast
qed

text \<open>
  The deletion request with the token of the session: the token stays valid and the
  cookie is set.
\<close>

theorem csrf_secret_kept_and_cookie_set_witness:
  "session_token_valid quiet store0 ''k'' \<and> truthy (csrfSecret store0) \<and>
   fst (run_stack (security_stack quiet delete_request) store0) = Inr Next \<and>
   session_token_valid quiet (snd (run_stack (security_stack quiet delete_request) store0)) ''k'' \<and>
   cookies (snd (run_stack (security_stack quiet delete_request) store0)) =
     [(''XSRF-TOKEN'', ''k'')]"
proof -
  have a: "session_token_valid quiet store0 ''k''" "truthy (csrfSecret store0)"
    by (simp_all add: session_token_valid_def truthy_def examples)
  have b: "fst (run_stack (security_stack quiet delete_request) store0) = Inr Next"
    by (simp add: security_stack_run examples ignoreMethod_def token_verifies_def
        session_secret_def)
  show ?thesis
    using a b csrf_secret_kept_and_cookie_set [where en = quiet and req = delete_request
        and s = store0 and t = "''k''" and h = store0]
    by (simp add: Let_def) (simp add: examples session_secret_def)
qed

text \<open>
  C9 as the spec states it fails for the responses to rejected requests: the request
  without a token gets a response, and no cookie is set on it.
\<close>

theorem cookie_not_refreshed_counterexample:
  "sent forged_run = [\<lparr>status = 500, body = ErrorBody ''invalid csrf token''\<rparr>] \<and>
   cookies forged_run = []"
  by (simp add: forged_run_def forged_request_def run_request_def app_stack_def
      run_stack_append security_stack_run chain_def await_def examples ignoreMethod_def
      token_verifies_def session_secret_def error_middleware_def send_def
      invalid_csrf_token_def)

lemma disciplinedI:
  assumes "\<And>s e s'. unanswered s \<Longrightarrow> m s = (Inl e, s') \<Longrightarrow>
             unanswered s' \<or> (answered s' \<and> statusCode s' \<noteq> 200)"
    and "\<And>s s'. unanswered s \<Longrightarrow> m s = (Inr Next, s') \<Longrightarrow> unanswered s'"
    and "\<And>s s'. unanswered s \<Longrightarrow> m s = (Inr Done, s') \<Longrightarrow> answered s'"
  shows "disciplined m"
  unfolding disciplined_def
  using assms by (auto split: prod.splits sum.splits flow.splits)

lemma disciplinedD:
  assumes "disciplined m" "unanswered s"
  shows "m s = (Inl e, s') \<Longrightarrow> unanswered s' \<or> (answered s' \<and> statusCode s' \<noteq> 200)"
    and "m s = (Inr Next, s') \<Longrightarrow> unanswered s'"
    and "m s = (Inr Done, s') \<Longrightarrow> answered s'"
proof -
  have c: "case m s of
      (Inl e, s') \<Rightarrow> unanswered s' \<or> (answered s' \<and> statusCode s' \<noteq> 200)
    | (Inr Next, s') \<Rightarrow> unanswered s'
    | (Inr Done, s') \<Rightarrow> answered s'"
    using assms(1) [unfolded disciplined_def, THEN spec, of s, THEN mp, OF assms(2)] .
  show "m s = (Inl e, s') \<Longrightarrow> unanswered s' \<or> (answered s' \<and> statusCode s' \<noteq> 200)"
    using c by simp
  show "m s = (Inr Next, s') \<Longrightarrow> unanswered s'"
    using c by simp
  show "m s = (Inr Done, s') \<Longrightarrow> answered s'"
    using c by simp
qed

lemma disciplined_chain:
  assumes "disciplined m" "disciplined k"
  shows "disciplined (chain m k)"
proof (rule disciplinedI)
  fix s e s'
  assume u: "unanswered s" and r: "chain m k s = (Inl e, s')"
  show "unanswered s' \<or> (answered s' \<and> statusCode s' \<noteq> 200)"
  proof (cases "m s")
    case (Pair a s1)
    show ?thesis
    proof (cases a)
      case (Inl x)
      with Pair r have "m s = (Inl e, s')" by (simp add: chain_def await_def)
      then show ?thesis using disciplinedD(1) [OF assms(1) u] by simp
    next
      case (Inr fl)
      show ?thesis
      proof (cases fl)
        case Next
        with Pair Inr r have k: "k s1 = (Inl e, s')" by (simp add: chain_def await_def)
        have "unanswered s1" using disciplinedD(2) [OF assms(1) u] Pair Inr Next by simp
        then show ?thesis using disciplinedD(1) [OF assms(2) _ k] by simp
      next
        case Done
        with Pair Inr r show ?thesis by (simp add: chain_def await_def resolve_def)
      qed
    qed
  qed
next
  fix s s'
  assume u: "unanswered s" and r: "chain m k s = (Inr Next, s')"
  show "unanswered s'"
  proof (cases "m s")
    case (Pair a s1)
    show ?thesis
    proof (cases a)
      case (Inl x)
      with Pair r show ?thesis by (simp add: chain_def await_def)
    next
      case (Inr fl)
      show ?thesis
      proof (cases fl)
        case Next
        with Pair Inr r have k: "k s1 = (Inr Next, s')" by (simp add: chain_def await_def)
        have "unanswered s1" using disciplinedD(2) [OF assms(1) u] Pair Inr Next by simp
        then show ?thesis using disciplinedD(2) [OF assms(2) _ k] by simp
      next
        case Done
        with Pair Inr r show ?thesis by (simp add: chain_def await_def resolve_def)
      qed
    qed
  qed
next
  fix s s'
  assume u: "unanswered s" and r: "chain m k s = (Inr Done, s')"
  show "answered s'"
  proof (cases "m s")
    case (Pair a s1)
    show ?thesis
    proof (cases a)
      case (Inl x)
      with Pair r show ?thesis by (simp add: chain_def await_def)
    next
      case (Inr fl)
      show ?thesis
      proof (cases fl)
        case Next
        with Pair Inr r have k: "k s1 = (Inr Done, s')" by (simp add: chain_def await_def)
        have "unanswered s1" using disciplinedD(2) [OF assms(1) u] Pair Inr Next by simp
        then show ?thesis using disciplinedD(3) [OF assms(2) _ k] by simp
      next
        case Done
        with Pair Inr r have "m s = (Inr Done, s')" by (simp add: chain_def await_def resolve_def)
        then show ?thesis using disciplinedD(3) [OF assms(1) u] by simp
      qed
    qed
  qed
qed

lemma disciplined_resolve_Next: "disciplined (resolve Next)"
  by (simp add: disciplined_def resolve_def)

lemma disciplined_run_stack:
  assumes "\<And>m. m \<in> set ms \<Longrightarrow> disciplined m"
  shows "disciplined (run_stack ms)"
  using assms by (induction ms) (simp_all add: disciplined_resolve_Next disciplined_chain)

lemma disciplined_library_stage: "disciplined (library_stage en e)"
  by (simp add: disciplined_def library_stage_def await_call resolve_def unanswered_def
      split: option.splits)

lemma disciplined_csrf: "disciplined (csrf en req)"
  by (simp add: disciplined_def csrf_def Let_def unanswered_def)

lemma disciplined_xsrf_cookie: "disciplined (xsrf_cookie en)"
  by (simp add: disciplined_def xsrf_cookie_def Let_def unanswered_def)

lemma disciplined_upload: "disciplined (upload en req)"
  by (simp add: disciplined_def upload_def await_call resolve_def unanswered_def
      split: option.splits)

lemma disciplined_frontend_proxy:
  assumes "fails en FetchFrontend = None"
  shows "disciplined (frontend_proxy en req)"
  using assms
  by (simp add: disciplined_def frontend_proxy_def Let_def await_def send_def resolve_def
      unanswered_def answered_def)

lemma chain_resolve_Next: "chain (resolve Next) k = k"
  by (simp add: chain_def await_resolve fun_eq_iff)

lemma failed_fetch_sends_nothing:
  assumes "target req = NonApi" and "req_method req = GET"
    and "fails en FetchFrontend = Some err"
    and "first_failure en
           [ParseUrlencoded, ParseJson, LoadSession, PassportInitialize, PassportSession] = None"
  shows "sent (run_request en req s) = sent s"
  using assms
  by (simp add: run_request_def app_stack_def security_stack_def chain_library_stage chain_csrf
      chain_xsrf_cookie apiRoutes_def chain_resolve_Next ignoreMethod_def chain_def [of "frontend_proxy en req"]
      frontend_proxy_def await_def resolve_def Let_def split: option.splits)

lemma disciplined_asyncHandler:
  assumes "answering fn"
  shows "disciplined (asyncHandler fn)"
  unfolding disciplined_def asyncHandler_def
proof (intro allI impI)
  fix s assume "unanswered s"
  from assms [unfolded answering_def, THEN spec, of s, THEN mp, OF this] show "case await fn (\<lambda>_. resolve Done) s of
      (Inl e, s') \<Rightarrow> unanswered s' \<or> answered s' \<and> statusCode s' \<noteq> 200
      | (Inr Next, s') \<Rightarrow> unanswered s' | (Inr Done, s') \<Rightarrow> answered s'"
    by (auto simp: await_def resolve_def split: prod.splits sum.splits)
qed


lemma answeringI:
  assumes "\<And>s. unanswered s \<Longrightarrow>
      (case fn s of (Inl e, s') \<Rightarrow> unanswered s' | (Inr x, s') \<Rightarrow> answered s')"
  shows "answering fn"
  unfolding answering_def
proof (intro allI impI)
  fix s assume "unanswered s"
  from assms [OF this] show "case fn s of
      (Inl e, s') \<Rightarrow> unanswered s' \<or> answered s' \<and> statusCode s' \<noteq> 200
    | (Inr x, s') \<Rightarrow> answered s'"
    by (auto split: prod.splits sum.splits)
qed

lemma logout_answers:
  assumes "answering (logoutResponse en req)"
  shows "answering (logout en req)"
  unfolding answering_def
proof (intro allI impI)
  fix s assume u: "unanswered s"
  let ?s1 = "s\<lparr>trace := trace s @ [Logout]\<rparr>"
  let ?s2 = "case fails en Logout of
       Some err \<Rightarrow>
         ?s1\<lparr>errorLog := errorLog ?s1 @
            [\<lparr>level = ''error'', log_message = message err, metadata = stack err,
              label = ''logout''\<rparr>]\<rparr>
     | None \<Rightarrow>
         ?s1\<lparr>sessionAlive := False, csrfSecret := None,
            forceClosed := forceClosed ?s1 @
              (case req_user req of None \<Rightarrow> [] | Some u \<Rightarrow> [user_id u])\<rparr>"
  have "unanswered ?s2"
    using u by (simp add: unanswered_def split: option.splits)
  from assms [unfolded answering_def, THEN spec, of ?s2, THEN mp, OF this]
  show "case logout en req s of
      (Inl e, s') \<Rightarrow> unanswered s' \<or> answered s' \<and> statusCode s' \<noteq> 200
    | (Inr x, s') \<Rightarrow> answered s'"
    by (auto simp: logout_def Let_def unanswered_def answered_def split: prod.splits sum.splits)
qed

lemma delete_profile_answers:
  assumes "answering (logoutResponse en req)"
  shows "answering (delete_profile en req)"
proof (cases "req_user req")
  case None
  then show ?thesis
    by (simp add: answering_def delete_profile_def reject_def)
next
  case (Some u)
  show ?thesis
    unfolding answering_def
  proof (intro allI impI)
    fix s assume u: "unanswered s"
    let ?i = "user_id u"
    let ?snapshot = "started_blobs en u (article_pictures s ?i)"
    let ?s5 = "s\<lparr>users := (users s)(?i := None),
                  blobs := blobs s - set (deletable en ?snapshot),
                  trace := trace s @ [FindAll ?i, Destroy ?i] @ map DeleteFile ?snapshot @
                    [DeleteMany ?i],
                  views := filter (\<lambda>(a, d). a \<noteq> ?i) (views s),
                  infoLog := infoLog s @ [UserDeleted ?i]\<rparr>"
    have "unanswered ?s5"
      using u by (simp add: unanswered_def)
    from logout_answers [OF assms, unfolded answering_def, THEN spec, of ?s5, THEN mp, OF this]
    show "case delete_profile en req s of
        (Inl e, s') \<Rightarrow> unanswered s' \<or> answered s' \<and> statusCode s' \<noteq> 200
      | (Inr x, s') \<Rightarrow> answered s'"
      unfolding delete_profile_run [OF Some]
      using u by (simp add: Let_def unanswered_def split: option.splits)
  qed
qed

lemma put_profile_answers: "answering (put_profile en req)"
  by (rule answeringI, cases "req_user req")
    (simp_all add: reject_def put_profile_def Let_def await_update await_infoLogger_log send_def
      unanswered_def answered_def split: option.splits)

lemma put_picture_answers: "answering (put_picture en req)"
proof (rule answeringI)
  fix s assume s: "unanswered s"
  show "case put_picture en req s of (Inl e, s') \<Rightarrow> unanswered s' | (Inr x, s') \<Rightarrow> answered s'"
  proof (cases "req_user req")
    case None
    with s show ?thesis by (simp add: put_picture_def reject_def)
  next
    case (Some u)
    show ?thesis
    proof (cases "file_url req")
      case None
      with Some s show ?thesis by (simp add: put_picture_def reject_def)
    next
      case (Some url)
      with \<open>req_user req = Some u\<close> s show ?thesis
        by (cases "fails en (Update (user_id u) (no_update\<lparr>upd_picture := Some url\<rparr>))";
            cases "first_failure en (map DeleteFile (profile_picture u))")
          (simp_all add: put_picture_def Let_def await_update await_infoLogger_log send_def
            await_profile_picture unanswered_def answered_def)
    qed
  qed
qed

lemma put_card_answers: "answering (put_card en req)"
  by (rule answeringI, cases "req_user req"; cases "stripe_customer_id (the (req_user req))")
    (simp_all add: reject_def put_card_def Let_def createCustomer_def createCard_def await_assoc
      await_call await_resolve await_update send_def truthy_simps unanswered_def answered_def
      split: option.splits)

lemma disciplined_options: "disciplined (await (send (AllowBody b)) (\<lambda>_. resolve Done))"
  by (simp add: disciplined_def await_def send_def resolve_def unanswered_def answered_def)

lemma disciplined_profile_router:
  assumes "disciplined (isLoggedIn en req)" "disciplined (editProfileValidation en req)"
    "answering (logoutResponse en req)"
  shows "disciplined (profile_router en req)"
  using assms
  by (simp add: profile_router_def disciplined_chain disciplined_asyncHandler
      delete_profile_answers put_profile_answers put_picture_answers put_card_answers
      disciplined_upload disciplined_resolve_Next disciplined_options)

lemma disciplined_apiRoutes:
  assumes "disciplined (isLoggedIn en req)" "disciplined (editProfileValidation en req)"
    "disciplined (otherApiRoutes en req)" "answering (logoutResponse en req)"
  shows "disciplined (apiRoutes en req)"
  using assms
  by (cases "target req")
    (simp_all add: apiRoutes_def disciplined_profile_router disciplined_resolve_Next)

lemma disciplined_app_stack:
  assumes "disciplined (isLoggedIn en req)" "disciplined (editProfileValidation en req)"
    "disciplined (otherApiRoutes en req)" "answering (logoutResponse en req)"
    "fails en FetchFrontend = None"
  shows "disciplined (run_stack (app_stack en req))"
  by (rule disciplined_run_stack)
    (auto simp: app_stack_def security_stack_def disciplined_library_stage disciplined_csrf
      disciplined_xsrf_cookie disciplined_apiRoutes [OF assms(1,2,3,4)]
      disciplined_frontend_proxy [OF assms(5)])

text \<open>
  C7, as the code has it. The error middleware answers only when the status code is still
  200, and the deletion route writes no response of its own, so one response per request
  rests on the code around them: a request whose response starts unanswered gets exactly
  one response when the middleware that is not under \<^verbatim>\<open>src/\<close> (the login check, the
  validation, the other routers) is disciplined, the logout that ends the deletion is
  answering, and the fetch of the frontend page does not fail.
\<close>

theorem exactly_one_response:
  assumes "unanswered s"
    and "disciplined (isLoggedIn en req)"
    and "disciplined (editProfileValidation en req)"
    and "disciplined (otherApiRoutes en req)"
    and "answering (logoutResponse en req)"
    and "fails en FetchFrontend = None"
  shows "length (sent (run_request en req s)) = 1"
proof -
  note d = disciplinedD [OF disciplined_app_stack [OF assms(2-6)] assms(1)]
  obtain r s1 where R: "run_stack (app_stack en req) s = (r, s1)"
    by (cases "run_stack (app_stack en req) s")
  show ?thesis
  proof (cases r)
    case (Inl err)
    with R d(1) have "unanswered s1 \<or> (answered s1 \<and> statusCode s1 \<noteq> 200)" by simp
    then show ?thesis
      using R Inl
      by (auto simp: run_request_def unanswered_def answered_def error_middleware_def send_def)
  next
    case (Inr fl)
    show ?thesis
    proof (cases fl)
      case Next
      with R Inr d(2) have "unanswered s1" by simp
      then show ?thesis
        using R Inr Next by (simp add: run_request_def unanswered_def send_def)
    next
      case Done
      with R Inr d(3) have "answered s1" by simp
      then show ?thesis
        using R Inr Done by (simp add: run_request_def answered_def)
    qed
  qed
qed

text \<open>
  The deletion request with its token, with a logout that answers, and the page request
  each get one response.
\<close>

theorem exactly_one_response_witness:
  "unanswered store0 \<and> disciplined (isLoggedIn quiet delete_request) \<and>
   disciplined (editProfileValidation quiet delete_request) \<and>
   disciplined (otherApiRoutes quiet delete_request) \<and>
   answering (logoutResponse quiet delete_request) \<and> fails quiet FetchFrontend = None \<and>
   length (sent (run_request quiet delete_request store0)) = 1 \<and>
   length (sent (run_request quiet page_request store0)) = 1"
proof -
  have a: "unanswered store0" "fails quiet FetchFrontend = None"
    by (simp_all add: unanswered_def examples)
  have b: "disciplined (isLoggedIn quiet r)" "disciplined (editProfileValidation quiet r)"
    "disciplined (otherApiRoutes quiet r)" for r
    by (simp_all add: quiet_def disciplined_resolve_Next)
  have c: "answering (logoutResponse quiet r)" for r
    by (simp add: quiet_def answering_def send_def unanswered_def answered_def)
  show ?thesis
    using a b c
      exactly_one_response [where en = quiet and req = delete_request and s = store0,
        OF a(1) b c a(2)]
      exactly_one_response [where en = quiet and req = page_request and s = store0,
        OF a(1) b c a(2)]
    by simp
qed

text \<open>
  C7 as the spec states it fails: the page request whose fetch of the frontend fails gets
  no response at all; and an error that reaches the error middleware when the status
  code is no longer 200 is logged without a response.
\<close>

theorem no_response_counterexample:
  "fails (failing FetchFrontend) FetchFrontend = Some boom \<and> sent proxy_failure_run = [] \<and>
   sent (snd guarded_error_run) = [] \<and> length (errorLog (snd guarded_error_run)) = 1"
proof -
  have "sent (run_request (failing FetchFrontend) page_request store0) = sent store0"
    by (rule failed_fetch_sends_nothing [where err = boom])
      (simp_all add: page_request_def examples)
  then show ?thesis
    by (simp add: proxy_failure_run_def guarded_error_run_def error_middleware_def examples)
qed

text \<open>
  C8. The lifetime of a session is 48 hours (172800000 ms, the \<^verbatim>\<open>maxAge\<close> of the session
  configuration) from its creation. It is enforced twice: the eviction of the store drops
  a session whose lifetime has passed, and the Auth Gate rejects such a session as
  Unauthenticated when it loads it, also while the store still holds the record; before
  that moment the Auth Gate accepts the session.
\<close>

theorem session_lifetime_enforced_twice:
  assumes "store sid = Some (createSession sid ident now)"
  shows "expiresAt (createSession sid ident now) = now + 172800000 \<and>
         (now + 172800000 \<le> t \<longrightarrow>
            evict t store sid = None \<and> auth_gate t store sid = Inl Unauthenticated) \<and>
         (t < now + 172800000 \<longrightarrow>
            evict t store sid = store sid \<and> auth_gate t store sid = Inr ident)"
  using assms
  by (simp add: createSession_def maxAge_def evict_def auth_gate_def expired_def)

text \<open>A session created at time 1000, seen two days later and one millisecond earlier.\<close>

theorem session_lifetime_enforced_twice_witness:
  "[''sid1'' \<mapsto> createSession ''sid1'' 7 1000] ''sid1'' = Some (createSession ''sid1'' 7 1000) \<and>
   auth_gate 172801000 [''sid1'' \<mapsto> createSession ''sid1'' 7 1000] ''sid1'' = Inl Unauthenticated \<and>
   evict 172801000 [''sid1'' \<mapsto> createSession ''sid1'' 7 1000] ''sid1'' = None \<and>
   auth_gate 172800999 [''sid1'' \<mapsto> createSession ''sid1'' 7 1000] ''sid1'' = Inr 7"
  using session_lifetime_enforced_twice [where store = "[''sid1'' \<mapsto> createSession ''sid1'' 7 1000]"
      and sid = "''sid1''" and ident = 7 and now = 1000 and t = 172801000]
    session_lifetime_enforced_twice [where store = "[''sid1'' \<mapsto> createSession ''sid1'' 7 1000]"
      and sid = "''sid1''" and ident = 7 and now = 1000 and t = 172800999]
  by simp

end
